theory Spec2Isabelle
  imports Complex_Main "HOL-Library.Signed_Division"
begin

section \<open>USGS GridFloat tiles (grid\_float.h, grid\_float.cpp)\<close>

text \<open>
  A shallow embedding of the tile engine of drmap.  The C++ types are read as follows:
  \<^item> \<open>double\<close> and \<open>float\<close> are read as \<open>real\<close>, and the formulas on them are the
    exact ones the source writes; the rounding to the nearest \<open>double\<close> or \<open>float\<close> is
    written out in the tile code \<open>llc\<close> (its two sums) and where \<open>_nodata + 1\<close> is
    converted to \<open>float\<close> for a comparison;
  \<^item> \<open>int\<close> is read as \<open>int\<close> together with the 32-bit range; an operation whose
    mathematical result leaves the range is undefined in C++ and is the value
    \<open>Inl Undefined_behaviour\<close> here;
  \<^item> a thrown exception, a call of \<open>exit\<close> and undefined behaviour are values of the
    type \<open>error\<close>; a function that can fail returns \<open>error + 'a\<close>.
\<close>

subsection \<open>Errors and results\<close>

datatype QUADRANT = Q0 | Q1 | Q2 | Q3 | Q4

datatype error =
    Undefined_behaviour
  | Process_exit
  | Grid_float_nodata QUADRANT real real
  | String_bounds_error
  | Out_of_range
  | Std_exception
  | Not_a_number

type_synonym 'a result = "error + 'a"

definition bind_result :: "'a result \<Rightarrow> ('a \<Rightarrow> 'b result) \<Rightarrow> 'b result" where
  "bind_result m f = (case m of Inl e \<Rightarrow> Inl e | Inr x \<Rightarrow> f x)"

subsection \<open>Machine integers\<close>

definition INT_MIN :: int where
  "INT_MIN = - (2 ^ 31)"

definition INT_MAX :: int where
  "INT_MAX = 2 ^ 31 - 1"

definition int_result :: "int \<Rightarrow> int result" where
  "int_result i = (if INT_MIN \<le> i \<and> i \<le> INT_MAX then Inr i else Inl Undefined_behaviour)"

definition truncate_real :: "real \<Rightarrow> int" where
  "truncate_real x = (if 0 \<le> x then \<lfloor>x\<rfloor> else - \<lfloor>- x\<rfloor>)"

definition double_to_int :: "real \<Rightarrow> int result" where
  "double_to_int x = int_result (truncate_real x)"

subsection \<open>Rounding to a floating-point format\<close>

text \<open>
  Rounding to the nearest value of a binary format with \<open>p\<close> digits and least exponent
  \<open>emin\<close>, ties to the even last digit (the default of IEEE 754): \<open>double\<close> has 53
  digits, \<open>float\<close> has 24.  An overflow to infinity is not written out: where these
  roundings are used the value is then outside the range of \<open>int\<close>, or is an \<open>int\<close>.
\<close>

definition round_even :: "real \<Rightarrow> int" where
  "round_even y =
     (let f = \<lfloor>y\<rfloor>; r = y - real_of_int f
      in if r < 1 / 2 then f
         else if 1 / 2 < r then f + 1
         else if even f then f
         else f + 1)"

definition round_binary :: "nat \<Rightarrow> int \<Rightarrow> real \<Rightarrow> real" where
  "round_binary p emin x =
     (if x = 0 then 0
      else
        let e = max \<lfloor>log 2 \<bar>x\<bar>\<rfloor> emin;
            ulp = 2 powr real_of_int (e - int p + 1)
        in real_of_int (round_even (x / ulp)) * ulp)"

definition round_to_double :: "real \<Rightarrow> real" where
  "round_to_double x = round_binary 53 (- 1022) x"

definition round_to_float :: "real \<Rightarrow> real" where
  "round_to_float x = round_binary 24 (- 126) x"

subsection \<open>Constants of grid\_float.h\<close>

definition RE :: real where
  "RE = 6371000"

definition PI :: real where
  "PI = 314159265358979 / 100000000000000"

definition DTOR :: real where
  "DTOR = PI / 180"

definition RTOD :: real where
  "RTOD = 1 / DTOR"

subsection \<open>Tile codes\<close>

text \<open>
  \<open>int (latitude + 1) * 1000 + int (- (longitude - 1))\<close>: the sum and the difference
  are those of \<open>double\<close>, rounded before the conversion; the negation is exact.
\<close>

definition llc :: "real \<Rightarrow> real \<Rightarrow> int result" where
  "llc latitude longitude =
     bind_result (double_to_int (round_to_double (latitude + 1))) (\<lambda>a.
     bind_result (int_result (a * 1000)) (\<lambda>m.
     bind_result (double_to_int (- round_to_double (longitude - 1))) (\<lambda>b.
     int_result (m + b))))"

subsection \<open>Strings (string\_functions.h)\<close>

text \<open>
  \<open>to_string\<close> of an \<open>int\<close>: its decimal digits, after a minus sign when it is
  negative.
\<close>

definition digit_char :: "nat \<Rightarrow> char" where
  "digit_char d = ''0123456789'' ! d"

function digits_of :: "nat \<Rightarrow> string" where
  "digits_of n = (if n < 10 then [digit_char n] else digits_of (n div 10) @ [digit_char (n mod 10)])"
  by pat_completeness auto
termination
  by (relation "measure id") auto

declare digits_of.simps [simp del]

definition to_string_int :: "int \<Rightarrow> string" where
  "to_string_int i = (if i < 0 then CHR ''-'' # digits_of (nat (- i)) else digits_of (nat i))"

text \<open>\<open>pad_string (s, len, PAD_LEFT, pad_char)\<close>; no other direction is used.\<close>

definition pad_string :: "string \<Rightarrow> nat \<Rightarrow> char \<Rightarrow> string" where
  "pad_string s len pad_char =
     (let rv = s
      in if length rv \<ge> len then rv
         else let n_pad_chars = len - length rv
              in replicate n_pad_chars pad_char @ rv)"

text \<open>\<open>std::string::substr (pos, n)\<close> throws \<open>std::out_of_range\<close> for \<open>pos > size ()\<close>.\<close>

definition substr :: "string \<Rightarrow> nat \<Rightarrow> nat \<Rightarrow> string result" where
  "substr s pos n = (if pos > length s then Inl Out_of_range else Inr (take n (drop pos s)))"

text \<open>
  \<open>from_string<int>\<close>: \<open>stream >> t\<close> on an \<open>istringstream\<close>.  It skips white space,
  reads an optional sign and the decimal digits that follow, and stores their value,
  clamped to the range of \<open>int\<close>; it stores 0 when no digit follows.  When nothing but
  white space is left the extraction does not start and \<open>t\<close> is returned uninitialised.
\<close>

definition is_space :: "char \<Rightarrow> bool" where
  "is_space c = (of_char c \<in> {32, 9, 10, 11, 12, 13 :: nat})"

definition is_digit :: "char \<Rightarrow> bool" where
  "is_digit c = (48 \<le> (of_char c :: nat) \<and> (of_char c :: nat) \<le> 57)"

definition digits_value :: "string \<Rightarrow> nat" where
  "digits_value ds = foldl (\<lambda>acc c. acc * 10 + (of_char c - 48)) 0 ds"

definition from_string_int :: "string \<Rightarrow> int result" where
  "from_string_int s =
     (let s1 = dropWhile is_space s
      in if s1 = [] then Inl Undefined_behaviour
         else
           let negative = (hd s1 = CHR ''-'');
               s2 = (if hd s1 = CHR ''-'' \<or> hd s1 = CHR ''+'' then tl s1 else s1);
               ds = takeWhile is_digit s2;
               v = (if negative then - int (digits_value ds) else int (digits_value ds))
           in if ds = [] then Inr 0
              else if v > INT_MAX then Inr INT_MAX
              else if v < INT_MIN then Inr INT_MIN
              else Inr v)"

text \<open>\<open>last_char\<close> throws on the empty string.\<close>

definition last_char :: "string \<Rightarrow> char result" where
  "last_char cs = (if cs = [] then Inl String_bounds_error else Inr (cs ! (length cs - 1)))"

subsection \<open>Tile names\<close>

text \<open>\<open>base_filename (llcode)\<close>; \<open>/\<close> and \<open>%\<close> of C++ round towards zero.\<close>

definition base_filename :: "int \<Rightarrow> string" where
  "base_filename llcode =
     (let lat_string = pad_string (to_string_int (llcode sdiv 1000)) 2 (CHR ''0'');
          long_string = pad_string (to_string_int (llcode smod 1000)) 3 (CHR ''0'')
      in ''n'' @ lat_string @ ''w'' @ long_string)"

text \<open>The overload \<open>llc (basefilename)\<close>.\<close>

definition llc_string :: "string \<Rightarrow> int result" where
  "llc_string basefilename =
     bind_result (substr basefilename 1 2) (\<lambda>lat_part.
     bind_result (from_string_int lat_part) (\<lambda>lat.
     bind_result (int_result (lat * 1000)) (\<lambda>m.
     bind_result (substr basefilename 4 3) (\<lambda>long_part.
     bind_result (from_string_int long_part) (\<lambda>long.
     int_result (m + long))))))"

subsection \<open>Files (diskfile.h, diskfile.cpp)\<close>

text \<open>
  What the fetcher can observe and change: the readable regular files with their
  contents, the directories, the two output streams, and the commands handed to
  \<open>system\<close>.  What a command does to the world, and whether \<open>mkdir\<close> fails, is not
  the repository's: both are parameters, as is the global \<open>debug\<close>.
\<close>

record world =
  files :: "string \<rightharpoonup> string"
  directories :: "string set"
  cout :: "string list"
  cerr :: "string list"
  commands :: "string list"

record environment =
  debug :: bool
  shell :: "string \<Rightarrow> world \<Rightarrow> world"
  mkdir_fails :: "string \<Rightarrow> world \<Rightarrow> bool"

definition file_exists :: "string \<Rightarrow> world \<Rightarrow> bool" where
  "file_exists filename w = (case files w filename of None \<Rightarrow> False | Some content \<Rightarrow> True)"

definition file_size :: "string \<Rightarrow> world \<Rightarrow> nat" where
  "file_size filename w = (case files w filename of None \<Rightarrow> 0 | Some content \<Rightarrow> length content)"

definition file_empty :: "string \<Rightarrow> world \<Rightarrow> bool" where
  "file_empty filename w = (file_size filename w = 0)"

definition file_delete :: "string \<Rightarrow> world \<Rightarrow> world" where
  "file_delete filename w =
     (if file_exists filename w then w\<lparr>files := (files w)(filename := None)\<rparr> else w)"

definition directory_exists :: "string \<Rightarrow> world \<Rightarrow> bool" where
  "directory_exists dirname w = (dirname \<in> directories w)"

definition directory_create :: "environment \<Rightarrow> string \<Rightarrow> world \<Rightarrow> unit result \<times> world" where
  "directory_create env dirname w =
     (if mkdir_fails env dirname w then (Inl Std_exception, w)
      else (Inr (), w\<lparr>directories := insert dirname (directories w)\<rparr>))"

definition directory_create_if_necessary ::
  "environment \<Rightarrow> string \<Rightarrow> world \<Rightarrow> unit result \<times> world" where
  "directory_create_if_necessary env dirname w =
     (if \<not> directory_exists dirname w then directory_create env dirname w else (Inr (), w))"

definition system :: "environment \<Rightarrow> string \<Rightarrow> world \<Rightarrow> world" where
  "system env command w = shell env command (w\<lparr>commands := commands w @ [command]\<rparr>)"

definition to_cout :: "string \<Rightarrow> world \<Rightarrow> world" where
  "to_cout line w = w\<lparr>cout := cout w @ [line]\<rparr>"

definition to_cerr :: "string \<Rightarrow> world \<Rightarrow> world" where
  "to_cerr line w = w\<lparr>cerr := cerr w @ [line]\<rparr>"

subsection \<open>The tile fetcher\<close>

text \<open>\<open>local_directory + ((last_char (local_directory) == '/') ? ""s : "/"s)\<close>.\<close>

definition local_dirname_of :: "string \<Rightarrow> string result" where
  "local_dirname_of local_directory =
     bind_result (last_char local_directory) (\<lambda>c.
     Inr (local_directory @ (if c = CHR ''/'' then [] else ''/'')))"

text \<open>
  The loop \<open>for (unsigned int n = 0; !downloaded and n < remote_filenames.size (); ++n)\<close>,
  over the remote filenames still to try.
\<close>

fun download_attempts ::
  "environment \<Rightarrow> string \<Rightarrow> string \<Rightarrow> string list \<Rightarrow> nat \<Rightarrow> bool \<Rightarrow> world \<Rightarrow> bool \<times> world" where
  "download_attempts env local_filename remote_directory [] n downloaded w = (downloaded, w)"
| "download_attempts env local_filename remote_directory (remote_filename # rest) n downloaded w =
     (if downloaded then (downloaded, w)
      else
        let w1 =
              (if \<not> file_exists local_filename w then
                 let w' = to_cout (''File '' @ local_filename @
                            '' does not exist; download attempt number '' @
                            to_string_int (int n + 1)) w;
                     command = ''wget -q -O '' @ local_filename @ '' '' @
                            remote_directory @ remote_filename;
                     w'' = (if debug env then to_cout (''command = ***'' @ command @ ''***'') w'
                            else w')
                 in system env command w''
               else w)
        in if file_empty local_filename w1
           then download_attempts env local_filename remote_directory rest (n + 1) False
                  (file_delete local_filename w1)
           else download_attempts env local_filename remote_directory rest (n + 1) True w1)"

text \<open>
  The extraction of one member of the archive.  The source has this block twice, for the
  header and for the data, with the names and the two messages as the only differences.
\<close>

definition extract_member ::
  "environment \<Rightarrow> string \<Rightarrow> string \<Rightarrow> string \<Rightarrow> string \<Rightarrow> string \<Rightarrow> string \<Rightarrow> string
     \<Rightarrow> world \<Rightarrow> unit result \<times> world" where
  "extract_member env local_directory local_dirname local_filename default_name
       alternative_name missing_message alternative_message w =
     (let command = ''unzip -qq -o -d '' @ local_directory @ '' '' @ local_filename @ '' '' @
                      default_name;
          w1 = system env command w
      in if \<not> file_exists (local_dirname @ default_name) w1 then
           let w2 = (if debug env
                     then to_cout (missing_message @ local_dirname @ default_name @
                            '' does not exist; trying alternative name'') w1
                     else w1);
               command = ''unzip -qq -o -d '' @ local_directory @ '' '' @ local_filename @
                           '' '' @ alternative_name;
               w3 = system env command w2
           in if \<not> file_exists (local_dirname @ alternative_name) w3 then
                (Inl Process_exit,
                 to_cerr (alternative_message @ local_dirname @ alternative_name @
                   '' does not exist; exiting'') w3)
              else
                let command = ''mv '' @ local_dirname @ alternative_name @ '' '' @
                                local_dirname @ default_name
                in (Inr (), system env command w3)
         else (Inr (), w1))"

definition download_if_necessary ::
  "environment \<Rightarrow> int \<Rightarrow> string \<Rightarrow> world \<Rightarrow> unit result \<times> world" where
  "download_if_necessary env llc_code local_directory w =
     (case local_dirname_of local_directory of
        Inl e \<Rightarrow> (Inl e, w)
      | Inr local_dirname \<Rightarrow>
          let full_header_name = local_dirname @ ''usgs_ned_13_'' @ base_filename llc_code @
                                   ''_gridfloat.hdr'';
              full_data_name = local_dirname @ ''usgs_ned_13_'' @ base_filename llc_code @
                                 ''_gridfloat.flt'';
              need_to_download =
                (if \<not> file_exists full_header_name w \<or> file_empty full_header_name w \<or>
                    \<not> file_exists full_data_name w \<or> file_empty full_data_name w
                 then True else False)
          in if \<not> need_to_download then (Inr (), w)
             else
               case directory_create_if_necessary env local_directory w of
                 (Inl e, w1) \<Rightarrow> (Inl e, w1)
               | (Inr u, w1) \<Rightarrow>
                   let remote_directory =
                         ''https://prd-tnm.s3.amazonaws.com/StagedProducts/Elevation/13/GridFloat/'';
                       remote_filenames =
                         [''USGS_NED_13_'' @ base_filename llc_code @ ''_GridFloat.zip'',
                          base_filename llc_code @ ''.zip''];
                       local_filename = local_dirname @ base_filename llc_code @ ''.zip'';
                       (downloaded, w2) =
                         download_attempts env local_filename remote_directory remote_filenames
                           0 False w1;
                       w3 = to_cout (if downloaded then ''Download succeeded''
                                     else ''Download did not succeed'') w2
                   in if \<not> downloaded then (Inl Process_exit, to_cerr ''download failed; exiting'' w3)
                      else
                        case extract_member env local_directory local_dirname local_filename
                               (''usgs_ned_13_'' @ base_filename llc_code @ ''_gridfloat.hdr'')
                               (''float'' @ base_filename llc_code @ ''_13.hdr'')
                               ''Header file '' ''Alternative header file '' w3 of
                          (Inl e, w4) \<Rightarrow> (Inl e, w4)
                        | (Inr u, w4) \<Rightarrow>
                            extract_member env local_directory local_dirname local_filename
                              (''usgs_ned_13_'' @ base_filename llc_code @ ''_gridfloat.flt'')
                              (''float'' @ base_filename llc_code @ ''_13.flt'')
                              ''Data file '' ''Alternative data file '' w4)"

subsection \<open>The mathematical library\<close>

text \<open>
  \<open>atan2\<close> of the C library, on real arguments: the angle of the point \<open>(x, y)\<close>, in
  \<open>(-pi, pi]\<close>, and 0 at the origin.  \<open>sin\<close>, \<open>cos\<close>, \<open>sqrt\<close> and \<open>asin\<close> are the
  functions of the same name of \<open>Complex_Main\<close> (\<open>asin\<close> is \<open>arcsin\<close>).
\<close>

definition atan2 :: "real \<Rightarrow> real \<Rightarrow> real" where
  "atan2 y x =
     (if 0 < x then arctan (y / x)
      else if x < 0 \<and> 0 \<le> y then arctan (y / x) + pi
      else if x < 0 then arctan (y / x) - pi
      else if 0 < y then pi / 2
      else if y < 0 then - (pi / 2)
      else 0)"

subsection \<open>Geodesic functions\<close>

definition distance :: "real \<Rightarrow> real \<Rightarrow> real \<Rightarrow> real \<Rightarrow> real" where
  "distance lat1 long1 lat2 long2 =
     (let delta_phi = lat2 - lat1;
          delta_phi_2 = delta_phi / 2;
          delta_lambda = long2 - long1;
          delta_lambda_2 = delta_lambda / 2;
          a = sin (delta_phi_2 * DTOR) * sin (delta_phi_2 * DTOR) +
              cos (lat1 * DTOR) * cos (lat2 * DTOR) *
              sin (delta_lambda_2 * DTOR) * sin (delta_lambda_2 * DTOR);
          c = 2 * atan2 (sqrt a) (sqrt (1 - a));
          d = RE * c
      in d)"

text \<open>The overload \<open>distance (lat_long_1, lat2, long2)\<close> of grid\_float.h.\<close>

definition distance_ll :: "real \<times> real \<Rightarrow> real \<Rightarrow> real \<Rightarrow> real" where
  "distance_ll lat_long_1 lat2 long2 = distance (fst lat_long_1) (snd lat_long_1) lat2 long2"

definition ll_from_bd :: "real \<Rightarrow> real \<Rightarrow> real \<Rightarrow> real \<Rightarrow> real \<times> real" where
  "ll_from_bd lat1 long1 bearing_d distance_m =
     (let delta = distance_m / RE;
          lat1_r = lat1 * DTOR;
          long1_r = long1 * DTOR;
          theta = bearing_d * DTOR;
          lat2_r = arcsin (sin (lat1_r * cos delta + cos lat1_r * sin delta * cos theta));
          long2_r = long1_r +
            atan2 (sin theta * sin delta * cos lat1_r) (cos delta - sin lat1_r * sin lat2_r);
          lat2_d = lat2_r * RTOD;
          long2_d = long2_r * RTOD
      in (lat2_d, long2_d))"

text \<open>
  The formula of the documentation of \<open>ll_from_bd\<close> (and of the specification), written
  from its words: \<open>lat2 = asin (sin lat1 * cos delta + cos lat1 * sin delta * cos theta)\<close>,
  \<open>lon2 = lon1 + atan2 (sin theta * sin delta * cos lat1, cos delta - sin lat1 * sin lat2)\<close>.
\<close>

definition ll_from_bd_documented :: "real \<Rightarrow> real \<Rightarrow> real \<Rightarrow> real \<Rightarrow> real \<times> real" where
  "ll_from_bd_documented lat1 long1 bearing_d distance_m =
     (let delta = distance_m / RE;
          lat1_r = lat1 * DTOR;
          long1_r = long1 * DTOR;
          theta = bearing_d * DTOR;
          lat2_r = arcsin (sin lat1_r * cos delta + cos lat1_r * sin delta * cos theta);
          long2_r = long1_r +
            atan2 (sin theta * sin delta * cos lat1_r) (cos delta - sin lat1_r * sin lat2_r)
      in (lat2_r * RTOD, long2_r * RTOD))"

subsection \<open>The tile\<close>

text \<open>
  The class \<open>grid_float_tile\<close>.  \<open>data_file\<close> is the content of the file named
  \<open>_data_filename\<close>, as its sequence of 32-bit floats; the stream \<open>_ifsp\<close> that the
  small-memory mode opens on it at the first query only reads it.
\<close>

record grid_float_tile =
  n_columns :: int
  n_rows :: int
  xllcorner :: real
  yllcorner :: real
  cellsize :: real
  nodata_value :: int
  nodata :: int
  byte_order :: string
  data :: "real list list"
  sm :: bool
  data_file :: "real list"
  n_invalid_data :: int
  xl :: real
  xr :: real
  yb :: real
  yt :: real

text \<open>
  The constructor, from the point where the header file has been read into its fields.
  Without \<open>small_memory\<close> it reads \<open>_n_rows\<close> rows of \<open>_n_columns\<close> floats; a row
  that the file does not fill keeps the zeros \<open>vector<float> row (_n_columns)\<close> starts
  with.  A negative size makes \<open>reserve\<close> or the vector's constructor throw.
\<close>

fun read_rows :: "nat \<Rightarrow> nat \<Rightarrow> real list \<Rightarrow> real list list" where
  "read_rows 0 ncols file = []"
| "read_rows (Suc n) ncols file =
     (take ncols file @ replicate (ncols - length (take ncols file)) 0)
       # read_rows n ncols (drop ncols file)"

text \<open>
  The count of the bad data: \<open>if (value < (_nodata + 1)) _n_invalid_data++\<close> for
  every value.  The sum is one of \<open>int\<close>, converted to \<open>float\<close> for the comparison.
\<close>

definition count_invalid :: "int \<Rightarrow> real list \<Rightarrow> int result" where
  "count_invalid nd values =
     (if values = [] then Inr 0
      else
        bind_result (int_result (nd + 1)) (\<lambda>limit.
        int_result (int (length (filter (\<lambda>v. v < round_to_float (real_of_int limit)) values)))))"

definition grid_float_tile_ctor ::
  "int \<Rightarrow> int \<Rightarrow> real \<Rightarrow> real \<Rightarrow> real \<Rightarrow> int \<Rightarrow> int \<Rightarrow> string \<Rightarrow> real list \<Rightarrow> bool
     \<Rightarrow> grid_float_tile result" where
  "grid_float_tile_ctor ncols nrows xll yll cs ndv nd order file small_memory =
     (if \<not> small_memory \<and> (nrows < 0 \<or> (0 < nrows \<and> ncols < 0)) then Inl Std_exception
      else
        let rows = (if small_memory then [] else read_rows (nat nrows) (nat ncols) file)
        in bind_result
             (if small_memory then count_invalid nd file else count_invalid nd (concat rows))
             (\<lambda>n_invalid.
           Inr \<lparr> n_columns = ncols, n_rows = nrows, xllcorner = xll, yllcorner = yll,
                 cellsize = cs, nodata_value = ndv, nodata = nd, byte_order = order,
                 data = rows, sm = small_memory, data_file = file,
                 n_invalid_data = n_invalid,
                 xl = xll, xr = xll + cs * real_of_int ncols,
                 yb = yll, yt = yll + cs * real_of_int nrows \<rparr>))"

definition is_between :: "real \<Rightarrow> real \<Rightarrow> real \<Rightarrow> bool" where
  "is_between v v1 v2 =
     (if v \<ge> v1 \<and> v \<le> v2 then True
      else if v \<ge> v2 \<and> v \<le> v1 then True
      else False)"

definition is_in_tile :: "grid_float_tile \<Rightarrow> real \<Rightarrow> real \<Rightarrow> bool" where
  "is_in_tile t latitude longitude =
     (is_between latitude (yb t) (yt t) \<and> is_between longitude (xl t) (xr t))"

text \<open>
  \<open>int (n_cells)\<close>: the quotient by a zero cell size is an infinity or a NaN, whose
  conversion to \<open>int\<close> is undefined like that of any value out of range.
\<close>

definition map_latitude_to_index :: "grid_float_tile \<Rightarrow> real \<Rightarrow> int result" where
  "map_latitude_to_index t latitude =
     (let diff = yt t - latitude
      in if cellsize t = 0 then Inl Undefined_behaviour
         else double_to_int (diff / cellsize t))"

definition map_longitude_to_index :: "grid_float_tile \<Rightarrow> real \<Rightarrow> int result" where
  "map_longitude_to_index t longitude =
     (let diff = longitude - xl t
      in if cellsize t = 0 then Inl Undefined_behaviour
         else double_to_int (diff / cellsize t))"

definition index_pair :: "grid_float_tile \<Rightarrow> real \<Rightarrow> real \<Rightarrow> (int \<times> int) result" where
  "index_pair t latitude longitude =
     bind_result (map_latitude_to_index t latitude) (\<lambda>row.
     bind_result (map_longitude_to_index t longitude) (\<lambda>col.
     Inr (row, col)))"

definition cell_centre :: "grid_float_tile \<Rightarrow> int \<times> int \<Rightarrow> real \<times> real" where
  "cell_centre t ipair =
     (let lat_0 = yt t - cellsize t / 2;
          latitude = lat_0 - real_of_int (fst ipair) * cellsize t;
          long_0 = xl t + cellsize t / 2;
          longitude = long_0 + real_of_int (snd ipair) * cellsize t
      in (latitude, longitude))"

text \<open>The overload \<open>cell_centre (latitude, longitude)\<close>.\<close>

definition cell_centre_ll :: "grid_float_tile \<Rightarrow> real \<Rightarrow> real \<Rightarrow> (real \<times> real) result" where
  "cell_centre_ll t latitude longitude =
     bind_result (index_pair t latitude longitude) (\<lambda>ipair. Inr (cell_centre t ipair))"

definition quadrant :: "grid_float_tile \<Rightarrow> real \<Rightarrow> real \<Rightarrow> QUADRANT result" where
  "quadrant t latitude longitude =
     bind_result (cell_centre_ll t latitude longitude) (\<lambda>centre.
       let c_latitude = fst centre;
           c_longitude = snd centre;
           dist = distance_ll centre latitude longitude
       in Inr (if dist < 1 then Q0
               else if latitude \<ge> c_latitude \<and> longitude \<ge> c_longitude then Q1
               else if latitude \<ge> c_latitude \<and> longitude \<le> c_longitude then Q2
               else if latitude \<le> c_latitude \<and> longitude \<le> c_longitude then Q3
               else Q4))"

text \<open>
  \<open>h > (_nodata + 1)\<close>: the sum is one of \<open>int\<close>, undefined when it overflows, and
  is converted to \<open>float\<close> for the comparison with the \<open>float\<close> \<open>h\<close>.
\<close>

definition valid_height :: "grid_float_tile \<Rightarrow> real \<Rightarrow> bool result" where
  "valid_height t h =
     bind_result (int_result (nodata t + 1)) (\<lambda>limit.
     Inr (h > round_to_float (real_of_int limit)))"

subsection \<open>Cell values\<close>

text \<open>
  \<open>_data [row] [column]\<close>: \<open>operator []\<close> of a vector is undefined outside the vector.
\<close>

definition vector_at :: "'a list \<Rightarrow> int \<Rightarrow> 'a result" where
  "vector_at xs i =
     (if 0 \<le> i \<and> i < int (length xs) then Inr (xs ! nat i) else Inl Undefined_behaviour)"

text \<open>
  The small-memory read: \<open>seekg (posn)\<close>, then \<open>read\<close> of \<open>sizeof (float)\<close> bytes,
  each followed by \<open>if (! _ifsp -> good ()) exit (-1)\<close>.  The position is a multiple of
  4 at both calls.  A negative position makes the seek fail, a position with fewer than
  four bytes after it the read.
\<close>

definition read_float :: "grid_float_tile \<Rightarrow> int \<Rightarrow> real result" where
  "read_float t posn =
     (if 0 \<le> posn \<and> posn + 4 \<le> 4 * int (length (data_file t))
      then Inr (data_file t ! nat (posn div 4))
      else Inl Process_exit)"

definition cell_value :: "grid_float_tile \<Rightarrow> real \<Rightarrow> real \<Rightarrow> real result" where
  "cell_value t latitude longitude =
     (if is_in_tile t latitude longitude then
        bind_result (map_latitude_to_index t latitude) (\<lambda>row_nr.
        bind_result (map_longitude_to_index t longitude) (\<lambda>column_nr.
        bind_result (int_result (n_columns t * 4)) (\<lambda>row_size.
        if sm t then
          bind_result (int_result (row_nr * row_size)) (\<lambda>a.
          bind_result (int_result (column_nr * 4)) (\<lambda>b.
          bind_result (int_result (a + b)) (\<lambda>posn.
          read_float t posn)))
        else
          bind_result (vector_at (data t) row_nr) (\<lambda>row.
          vector_at row column_nr))))
      else Inr (real_of_int (nodata t)))"

text \<open>The overload \<open>cell_value (ip)\<close> on an index pair: no containment check.\<close>

definition cell_value_ip :: "grid_float_tile \<Rightarrow> int \<times> int \<Rightarrow> real result" where
  "cell_value_ip t ip =
     (if sm t then
        bind_result (int_result (n_columns t * 4)) (\<lambda>row_size.
        bind_result (int_result (fst ip * row_size)) (\<lambda>a.
        bind_result (int_result (snd ip * 4)) (\<lambda>b.
        bind_result (int_result (a + b)) (\<lambda>posn.
        read_float t posn))))
      else
        bind_result (vector_at (data t) (fst ip)) (\<lambda>row.
        vector_at row (snd ip)))"

subsection \<open>Interpolation\<close>

text \<open>
  The loops \<open>for (auto n = 0; n < 4; ++n)\<close> over the arrays \<open>heights\<close> and
  \<open>distances\<close>, the two arrays read as one list of pairs and \<open>(h, inv_d)\<close> as the
  accumulator.  A division by a distance of 0 yields an infinity, the quotient
  \<open>h / inv_d\<close> is then a NaN, and the function returns that NaN: \<open>Inl Not_a_number\<close>.
  The first loop is that of the branch Q1, the second that of Q2, Q3 and Q4.
\<close>

fun weighted_sums_valid ::
  "grid_float_tile \<Rightarrow> (real \<times> real) list \<Rightarrow> real \<times> real \<Rightarrow> (real \<times> real) result" where
  "weighted_sums_valid t [] (h, inv_d) = Inr (h, inv_d)"
| "weighted_sums_valid t ((height, distance_n) # rest) (h, inv_d) =
     (case valid_height t height of
        Inl e \<Rightarrow> Inl e
      | Inr valid \<Rightarrow>
          if valid then
            (if distance_n = 0 then Inl Not_a_number
             else weighted_sums_valid t rest (h + height / distance_n, inv_d + 1 / distance_n))
          else weighted_sums_valid t rest (h, inv_d))"

fun weighted_sums :: "(real \<times> real) list \<Rightarrow> real \<times> real \<Rightarrow> (real \<times> real) result" where
  "weighted_sums [] (h, inv_d) = Inr (h, inv_d)"
| "weighted_sums ((height, distance_n) # rest) (h, inv_d) =
     (if distance_n = 0 then Inl Not_a_number
      else weighted_sums rest (h + height / distance_n, inv_d + 1 / distance_n))"

text \<open>Q1: the cell, the cell to its right, the cell above, the cell above and to the right.\<close>

definition interpolated_Q1 :: "grid_float_tile \<Rightarrow> real \<times> real \<Rightarrow> real \<Rightarrow> real \<Rightarrow> real result" where
  "interpolated_Q1 t ll_centre latitude longitude =
     bind_result (index_pair t latitude longitude) (\<lambda>indices_0.
     bind_result (cell_value t latitude longitude) (\<lambda>heights_0.
     let distances_0 = distance_ll ll_centre latitude longitude in
     bind_result (int_result (snd indices_0 + 1)) (\<lambda>second_1.
     let indices_1 = (fst indices_0, second_1);
         ll_centre_1 = cell_centre t indices_1 in
     bind_result (cell_value_ip t indices_1) (\<lambda>heights_1.
     let distances_1 = distance_ll ll_centre_1 latitude longitude in
     bind_result (int_result (fst indices_0 - 1)) (\<lambda>first_2.
     let indices_2 = (first_2, snd indices_0);
         ll_centre_2 = cell_centre t indices_2 in
     bind_result (cell_value_ip t indices_2) (\<lambda>heights_2.
     let distances_2 = distance_ll ll_centre_2 latitude longitude;
         indices_3 = (first_2, second_1);
         ll_centre_3 = cell_centre t indices_3 in
     bind_result (cell_value_ip t indices_3) (\<lambda>heights_3.
     let distances_3 = distance_ll ll_centre_3 latitude longitude in
     bind_result
       (weighted_sums_valid t
          [(heights_0, distances_0), (heights_1, distances_1),
           (heights_2, distances_2), (heights_3, distances_3)] (0, 0)) (\<lambda>(h, inv_d).
     if inv_d = 0 then Inl (Grid_float_nodata Q1 latitude longitude)
     else Inr (h / inv_d)))))))))"

text \<open>Q2: the cell, the cell to its left, the cell above, the cell above and to the left.\<close>

definition interpolated_Q2 :: "grid_float_tile \<Rightarrow> real \<times> real \<Rightarrow> real \<Rightarrow> real \<Rightarrow> real result" where
  "interpolated_Q2 t ll_centre latitude longitude =
     bind_result (index_pair t latitude longitude) (\<lambda>indices_0.
     bind_result (cell_value t latitude longitude) (\<lambda>heights_0.
     let distances_0 = distance_ll ll_centre latitude longitude in
     bind_result (int_result (snd indices_0 - 1)) (\<lambda>second_1.
     let indices_1 = (fst indices_0, second_1);
         ll_centre_1 = cell_centre t indices_1 in
     bind_result (cell_value_ip t indices_1) (\<lambda>heights_1.
     let distances_1 = distance_ll ll_centre_1 latitude longitude in
     bind_result (int_result (fst indices_0 - 1)) (\<lambda>first_2.
     let indices_2 = (first_2, snd indices_0);
         ll_centre_2 = cell_centre t indices_2 in
     bind_result (cell_value_ip t indices_2) (\<lambda>heights_2.
     let distances_2 = distance_ll ll_centre_2 latitude longitude;
         indices_3 = (first_2, second_1);
         ll_centre_3 = cell_centre t indices_3 in
     bind_result (cell_value_ip t indices_3) (\<lambda>heights_3.
     let distances_3 = distance_ll ll_centre_3 latitude longitude in
     bind_result
       (weighted_sums
          [(heights_0, distances_0), (heights_1, distances_1),
           (heights_2, distances_2), (heights_3, distances_3)] (0, 0)) (\<lambda>(h, inv_d).
     if inv_d = 0 then Inl (Grid_float_nodata Q2 latitude longitude)
     else Inr (h / inv_d)))))))))"

text \<open>Q3: the cell, the cell to its left, the cell below, the cell below and to the left.\<close>

definition interpolated_Q3 :: "grid_float_tile \<Rightarrow> real \<times> real \<Rightarrow> real \<Rightarrow> real \<Rightarrow> real result" where
  "interpolated_Q3 t ll_centre latitude longitude =
     bind_result (index_pair t latitude longitude) (\<lambda>indices_0.
     bind_result (cell_value t latitude longitude) (\<lambda>heights_0.
     let distances_0 = distance_ll ll_centre latitude longitude in
     bind_result (int_result (snd indices_0 - 1)) (\<lambda>second_1.
     let indices_1 = (fst indices_0, second_1);
         ll_centre_1 = cell_centre t indices_1 in
     bind_result (cell_value_ip t indices_1) (\<lambda>heights_1.
     let distances_1 = distance_ll ll_centre_1 latitude longitude in
     bind_result (int_result (fst indices_0 + 1)) (\<lambda>first_2.
     let indices_2 = (first_2, snd indices_0);
         ll_centre_2 = cell_centre t indices_2 in
     bind_result (cell_value_ip t indices_2) (\<lambda>heights_2.
     let distances_2 = distance_ll ll_centre_2 latitude longitude;
         indices_3 = (first_2, second_1);
         ll_centre_3 = cell_centre t indices_3 in
     bind_result (cell_value_ip t indices_3) (\<lambda>heights_3.
     let distances_3 = distance_ll ll_centre_3 latitude longitude in
     bind_result
       (weighted_sums
          [(heights_0, distances_0), (heights_1, distances_1),
           (heights_2, distances_2), (heights_3, distances_3)] (0, 0)) (\<lambda>(h, inv_d).
     if inv_d = 0 then Inl (Grid_float_nodata Q3 latitude longitude)
     else Inr (h / inv_d)))))))))"

text \<open>Q4: the cell, the cell to its right, the cell below, the cell below and to the right.\<close>

definition interpolated_Q4 :: "grid_float_tile \<Rightarrow> real \<times> real \<Rightarrow> real \<Rightarrow> real \<Rightarrow> real result" where
  "interpolated_Q4 t ll_centre latitude longitude =
     bind_result (index_pair t latitude longitude) (\<lambda>indices_0.
     bind_result (cell_value t latitude longitude) (\<lambda>heights_0.
     let distances_0 = distance_ll ll_centre latitude longitude in
     bind_result (int_result (snd indices_0 + 1)) (\<lambda>second_1.
     let indices_1 = (fst indices_0, second_1);
         ll_centre_1 = cell_centre t indices_1 in
     bind_result (cell_value_ip t indices_1) (\<lambda>heights_1.
     let distances_1 = distance_ll ll_centre_1 latitude longitude in
     bind_result (int_result (fst indices_0 + 1)) (\<lambda>first_2.
     let indices_2 = (first_2, snd indices_0);
         ll_centre_2 = cell_centre t indices_2 in
     bind_result (cell_value_ip t indices_2) (\<lambda>heights_2.
     let distances_2 = distance_ll ll_centre_2 latitude longitude;
         indices_3 = (first_2, second_1);
         ll_centre_3 = cell_centre t indices_3 in
     bind_result (cell_value_ip t indices_3) (\<lambda>heights_3.
     let distances_3 = distance_ll ll_centre_3 latitude longitude in
     bind_result
       (weighted_sums
          [(heights_0, distances_0), (heights_1, distances_1),
           (heights_2, distances_2), (heights_3, distances_3)] (0, 0)) (\<lambda>(h, inv_d).
     if inv_d = 0 then Inl (Grid_float_nodata Q4 latitude longitude)
     else Inr (h / inv_d)))))))))"

definition interpolated_value :: "grid_float_tile \<Rightarrow> real \<Rightarrow> real \<Rightarrow> real result" where
  "interpolated_value t latitude longitude =
     bind_result (cell_centre_ll t latitude longitude) (\<lambda>ll_centre.
     bind_result (quadrant t latitude longitude) (\<lambda>q.
     case q of
       Q0 \<Rightarrow>
         bind_result (cell_value t latitude longitude) (\<lambda>cv.
         if cv < - 9000 then Inl (Grid_float_nodata Q0 latitude longitude)
         else Inr cv)
     | Q1 \<Rightarrow> interpolated_Q1 t ll_centre latitude longitude
     | Q2 \<Rightarrow> interpolated_Q2 t ll_centre latitude longitude
     | Q3 \<Rightarrow> interpolated_Q3 t ll_centre latitude longitude
     | Q4 \<Rightarrow> interpolated_Q4 t ll_centre latitude longitude))"

subsection \<open>The weighted mean of the specification\<close>

text \<open>
  Written from the words of the specification, to be compared with the branches above:
  the query cell and its three neighbours in the direction of the quadrant, each with
  its height and the distance from its centre to the point, and over those the
  inverse-distance-weighted mean \<open>sum (height_i / distance_i) / sum (1 / distance_i)\<close>.
  In Q1 only the cells with a valid height, \<open>height > nodata + 1\<close>, contribute, in Q2,
  Q3 and Q4 all four.
\<close>

definition neighbour_offsets :: "QUADRANT \<Rightarrow> (int \<times> int) list" where
  "neighbour_offsets q =
     (case q of
        Q0 \<Rightarrow> []
      | Q1 \<Rightarrow> [(0, 1), (- 1, 0), (- 1, 1)]
      | Q2 \<Rightarrow> [(0, - 1), (- 1, 0), (- 1, - 1)]
      | Q3 \<Rightarrow> [(0, - 1), (1, 0), (1, - 1)]
      | Q4 \<Rightarrow> [(0, 1), (1, 0), (1, 1)])"

definition neighbour_sample ::
  "grid_float_tile \<Rightarrow> real \<Rightarrow> real \<Rightarrow> int \<times> int \<Rightarrow> int \<times> int \<Rightarrow> (real \<times> real) result" where
  "neighbour_sample t latitude longitude indices_0 offset =
     bind_result (int_result (fst indices_0 + fst offset)) (\<lambda>row.
     bind_result (int_result (snd indices_0 + snd offset)) (\<lambda>col.
     bind_result (cell_value_ip t (row, col)) (\<lambda>height.
     Inr (height, distance_ll (cell_centre t (row, col)) latitude longitude))))"

fun collect_results :: "'a result list \<Rightarrow> 'a list result" where
  "collect_results [] = Inr []"
| "collect_results (r # rs) =
     bind_result r (\<lambda>x. bind_result (collect_results rs) (\<lambda>xs. Inr (x # xs)))"

definition quadrant_cells ::
  "grid_float_tile \<Rightarrow> QUADRANT \<Rightarrow> real \<Rightarrow> real \<Rightarrow> (real \<times> real) list result" where
  "quadrant_cells t q latitude longitude =
     bind_result (cell_centre_ll t latitude longitude) (\<lambda>centre.
     bind_result (index_pair t latitude longitude) (\<lambda>indices_0.
     bind_result (cell_value t latitude longitude) (\<lambda>height_0.
     bind_result
       (collect_results
          (map (neighbour_sample t latitude longitude indices_0) (neighbour_offsets q)))
       (\<lambda>others.
     Inr ((height_0, distance_ll centre latitude longitude) # others)))))"

definition contributing ::
  "grid_float_tile \<Rightarrow> QUADRANT \<Rightarrow> (real \<times> real) list \<Rightarrow> (real \<times> real) list" where
  "contributing t q cells =
     (if q = Q1
      then filter (\<lambda>(height, distance_n). height > real_of_int (nodata t) + 1) cells
      else cells)"

definition sum_inverse_distances :: "(real \<times> real) list \<Rightarrow> real" where
  "sum_inverse_distances cells = (\<Sum>(height, distance_n)\<leftarrow>cells. 1 / distance_n)"

definition inverse_distance_mean :: "(real \<times> real) list \<Rightarrow> real" where
  "inverse_distance_mean cells =
     (\<Sum>(height, distance_n)\<leftarrow>cells. height / distance_n) / sum_inverse_distances cells"

subsection \<open>Two tiles for evaluation\<close>

text \<open>
  A tile of three rows and three columns of one degree, with its lower left corner at
  latitude 0 and longitude 0, held in memory; the cell of row 0 and column 2 holds the
  NODATA value.  The second tile has the same header over a file of NODATA values only.
\<close>

definition example_file :: "real list" where
  "example_file = [1, 2, - 9999, 4, 5, 6, 7, 8, 9]"

definition example_tile :: grid_float_tile where
  "example_tile =
     \<lparr> n_columns = 3, n_rows = 3, xllcorner = 0, yllcorner = 0, cellsize = 1,
       nodata_value = - 9999, nodata = - 9999, byte_order = ''LSBFIRST'',
       data = [[1, 2, - 9999], [4, 5, 6], [7, 8, 9]], sm = False,
       data_file = example_file, n_invalid_data = 1,
       xl = 0, xr = 3, yb = 0, yt = 3 \<rparr>"

definition nodata_file :: "real list" where
  "nodata_file = replicate 9 (- 9999)"

definition nodata_tile :: grid_float_tile where
  "nodata_tile =
     \<lparr> n_columns = 3, n_rows = 3, xllcorner = 0, yllcorner = 0, cellsize = 1,
       nodata_value = - 9999, nodata = - 9999, byte_order = ''LSBFIRST'',
       data = [[- 9999, - 9999, - 9999], [- 9999, - 9999, - 9999], [- 9999, - 9999, - 9999]],
       sm = False, data_file = nodata_file, n_invalid_data = 9,
       xl = 0, xr = 3, yb = 0, yt = 3 \<rparr>"

subsection \<open>A world for evaluation\<close>

text \<open>
  The directory \<open>tiles\<close> holds the two files of tile 41106; commands do nothing.
\<close>

definition cached_world :: world where
  "cached_world =
     \<lparr> files = [''tiles/usgs_ned_13_n41w106_gridfloat.hdr'' \<mapsto> ''NCOLS 3'',
                 ''tiles/usgs_ned_13_n41w106_gridfloat.flt'' \<mapsto> ''abcd''],
       directories = {''tiles''}, cout = [], cerr = [], commands = [] \<rparr>"

definition idle_environment :: environment where
  "idle_environment = \<lparr> debug = False, shell = (\<lambda>command w. w), mkdir_fails = (\<lambda>dirname w. False) \<rparr>"

section \<open>Theorems\<close>

subsection \<open>Results and integers\<close>

lemma bind_result_Inr [simp]: "bind_result (Inr x) f = f x"
  by (simp add: bind_result_def)

lemma bind_result_Inl [simp]: "bind_result (Inl e) f = Inl e"
  by (simp add: bind_result_def)

lemma bind_result_eq_Inr:
  "bind_result m f = Inr y \<longleftrightarrow> (\<exists>x. m = Inr x \<and> f x = Inr y)"
  by (cases m) simp_all

lemma int_result_Inr: "INT_MIN \<le> i \<Longrightarrow> i \<le> INT_MAX \<Longrightarrow> int_result i = Inr i"
  by (simp add: int_result_def)

lemma int_result_eq_Inr: "int_result i = Inr j \<longleftrightarrow> j = i \<and> INT_MIN \<le> i \<and> i \<le> INT_MAX"
  by (auto simp: int_result_def)

lemma truncate_real_nonneg: "0 \<le> x \<Longrightarrow> truncate_real x = \<lfloor>x\<rfloor>"
  by (simp add: truncate_real_def)

subsection \<open>Rounding\<close>

lemma round_even_of_int: "round_even (real_of_int m) = m"
  by (simp add: round_even_def)

lemma round_even_nonneg: "0 \<le> y \<Longrightarrow> 0 \<le> round_even y"
  by (simp add: round_even_def Let_def)

lemma round_even_nonpos:
  assumes "y \<le> 0"
  shows "round_even y \<le> 0"
proof (cases "\<lfloor>y\<rfloor> \<le> - 1")
  case True
  then show ?thesis by (simp add: round_even_def Let_def)
next
  case False
  moreover have "\<lfloor>y\<rfloor> \<le> 0" using assms by (simp add: floor_le_iff)
  ultimately have f: "\<lfloor>y\<rfloor> = 0" by linarith
  then have "0 \<le> y" by (simp add: floor_eq_iff)
  then have "y = 0" using assms by simp
  then show ?thesis by (simp add: round_even_def)
qed

lemma round_binary_nonneg: "0 \<le> x \<Longrightarrow> 0 \<le> round_binary p emin x"
  by (simp add: round_binary_def Let_def round_even_nonneg)

lemma round_binary_nonpos:
  assumes "x \<le> 0"
  shows "round_binary p emin x \<le> 0"
proof (cases "x = 0")
  case True
  then show ?thesis by (simp add: round_binary_def)
next
  case False
  define ulp where "ulp = 2 powr real_of_int (max \<lfloor>log 2 \<bar>x\<bar>\<rfloor> emin - int p + 1)"
  have u: "0 < ulp" by (simp add: ulp_def)
  then have "x / ulp \<le> 0" using assms by (simp add: divide_le_0_iff)
  then have "round_even (x / ulp) \<le> 0" by (rule round_even_nonpos)
  then have "real_of_int (round_even (x / ulp)) * ulp \<le> 0"
    using u by (simp add: mult_le_0_iff)
  then show ?thesis
    using False by (simp add: round_binary_def Let_def ulp_def)
qed

lemma round_binary_exact:
  assumes "x \<noteq> 0"
    and "2 powr real_of_int e \<le> \<bar>x\<bar>" and "\<bar>x\<bar> < 2 powr real_of_int (e + 1)"
    and "emin \<le> e"
    and "x = real_of_int m * 2 powr real_of_int (e - int p + 1)"
  shows "round_binary p emin x = x"
proof -
  have "\<lfloor>log 2 \<bar>x\<bar>\<rfloor> = e"
    using assms(1,2,3) by (subst floor_log_eq_powr_iff) simp_all
  then have e: "max \<lfloor>log 2 \<bar>x\<bar>\<rfloor> emin = e"
    using assms(4) by simp
  define ulp where "ulp = 2 powr real_of_int (e - int p + 1)"
  have u: "0 < ulp" by (simp add: ulp_def)
  have "x / ulp = real_of_int m"
    using u assms(5) by (simp add: ulp_def)
  then have "real_of_int (round_even (x / ulp)) * ulp = x"
    using assms(5) by (simp add: round_even_of_int ulp_def)
  then show ?thesis
    using assms(1) by (simp add: round_binary_def Let_def e ulp_def)
qed

lemma round_to_float_of_int:
  assumes "\<bar>n\<bar> \<le> 2 ^ 24"
  shows "round_to_float (real_of_int n) = real_of_int n"
proof (cases "n = 0")
  case True
  then show ?thesis by (simp add: round_to_float_def round_binary_def)
next
  case False
  define x where "x = real_of_int n"
  define e where "e = \<lfloor>log 2 \<bar>x\<bar>\<rfloor>"
  have x1: "1 \<le> \<bar>x\<bar>" using False by (simp add: x_def)
  have x2: "\<bar>x\<bar> \<le> 2 ^ 24"
  proof -
    have "real_of_int \<bar>n\<bar> \<le> real_of_int (2 ^ 24)" using assms by (simp only: of_int_le_iff)
    then show ?thesis by (simp add: x_def)
  qed
  have b: "2 powr real_of_int e \<le> \<bar>x\<bar>" "\<bar>x\<bar> < 2 powr real_of_int (e + 1)"
    using x1 floor_log_eq_powr_iff [of "\<bar>x\<bar>" 2 e] by (simp_all add: e_def)
  have e0: "0 \<le> e"
    using x1 by (simp add: e_def le_log_iff)
  have e24: "e \<le> 24"
  proof (rule ccontr)
    assume "\<not> e \<le> 24"
    then have "(25::real) \<le> real_of_int e" by simp
    then have "(2::real) powr 25 \<le> 2 powr real_of_int e"
      by (rule powr_mono) simp
    then show False using b(1) x2 by simp
  qed
  define k where "k = e - int 24 + 1"
  have "\<exists>m. x = real_of_int m * 2 powr real_of_int k"
  proof (cases "e \<le> 23")
    case True
    then have k: "k \<le> 0" by (simp add: k_def)
    have "(2::real) powr real_of_int k = 1 / 2 ^ nat (- k)"
      using k powr_int [of "2::real" k] by (cases "k = 0") simp_all
    then have "x = real_of_int (n * 2 ^ nat (- k)) * 2 powr real_of_int k"
      by (simp add: x_def)
    then show ?thesis ..
  next
    case False
    then have e: "e = 24" using e24 by simp
    then have "2 ^ 24 \<le> \<bar>x\<bar>" using b(1) by simp
    then have "\<bar>x\<bar> = 2 ^ 24" using x2 by simp
    then have "real_of_int \<bar>n\<bar> = real_of_int (2 ^ 24)"
      by (simp add: x_def)
    then have "\<bar>n\<bar> = 2 ^ 24"
      by (simp only: of_int_eq_iff)
    then have "n = 2 ^ 24 \<or> n = - (2 ^ 24)" by linarith
    moreover have "k = 1" by (simp add: k_def e)
    ultimately have "x = real_of_int (n div 2) * 2 powr real_of_int k"
      by (auto simp: x_def)
    then show ?thesis ..
  qed
  then obtain m where m: "x = real_of_int m * 2 powr real_of_int (e - int 24 + 1)"
    unfolding k_def ..
  have "x \<noteq> 0" using x1 by auto
  then have "round_binary 24 (- 126) x = x"
    using b _ m by (rule round_binary_exact) (use e0 in simp)
  then show ?thesis by (simp add: round_to_float_def x_def)
qed

lemma round_to_double_1: "round_to_double 1 = 1"
  unfolding round_to_double_def
  by (rule round_binary_exact [where e = 0 and m = "2 ^ 52"]) (simp_all add: powr_neg_numeral)

lemma round_to_double_half: "round_to_double (1 / 2) = 1 / 2"
  unfolding round_to_double_def
  by (rule round_binary_exact [where e = "- 1" and m = "2 ^ 52"]) (simp_all add: powr_neg_numeral)

lemma round_to_double_425: "round_to_double (85 / 2) = 85 / 2"
  unfolding round_to_double_def
  by (rule round_binary_exact [where e = 5 and m = "85 * 2 ^ 46"]) (simp_all add: powr_neg_numeral)

lemma round_to_double_1065: "round_to_double (- (213 / 2)) = - (213 / 2)"
  unfolding round_to_double_def
  by (rule round_binary_exact [where e = 6 and m = "- 213 * 2 ^ 45"]) (simp_all add: powr_neg_numeral)

lemma round_to_double_tie: "round_to_double (2 - 1 / 2 ^ 53) = 2"
proof -
  define x :: real where "x = 2 - 1 / 2 ^ 53"
  have "\<lfloor>log 2 \<bar>x\<bar>\<rfloor> = 0"
    by (subst floor_log_eq_powr_iff) (simp_all add: x_def)
  then have e: "max \<lfloor>log 2 \<bar>x\<bar>\<rfloor> (- 1022) = 0" by simp
  have q: "x / (2 powr real_of_int (0 - int 53 + 1)) = real_of_int (2 ^ 53 - 1) + 1 / 2"
    by (simp add: x_def powr_neg_numeral)
  have "round_even (real_of_int (2 ^ 53 - 1) + 1 / 2) = 2 ^ 53"
    by (simp add: round_even_def)
  then have "round_binary 53 (- 1022) x = 2"
    unfolding round_binary_def Let_def e q by (simp add: x_def powr_neg_numeral)
  then show ?thesis by (simp add: round_to_double_def x_def)
qed


lemma round_to_double_minus_1: "round_to_double (- 1) = - 1"
  unfolding round_to_double_def
  by (rule round_binary_exact [where e = 0 and m = "- (2 ^ 52)"]) (simp_all add: powr_neg_numeral)

subsection \<open>Tile codes\<close>

text \<open>
  C7, as the specification states it: for every latitude and longitude of either sign the
  tile code is \<open>floor (latitude + 1) * 1000 + floor (- (longitude - 1))\<close>.  This fails:
  the source converts with \<open>int (...)\<close>, which rounds towards zero.  At latitude 0 and
  longitude 1.5 the source yields 1000, the formula of the claim 999.
\<close>

theorem llc_floor_counterexample:
  "llc 0 (3 / 2) = Inr 1000 \<and> \<lfloor>(0::real) + 1\<rfloor> * 1000 + \<lfloor>- ((3 / 2 :: real) - 1)\<rfloor> = 999"
  by (simp add: llc_def round_to_double_1 round_to_double_half double_to_int_def truncate_real_def
      int_result_def INT_MIN_def INT_MAX_def)

text \<open>
  The sums are those of \<open>double\<close>: at the latitude \<open>1 - 2^-53\<close> the sum
  \<open>latitude + 1\<close> is rounded to 2, and the code is 2001 where the exact sum gives 1001.
\<close>

lemma llc_rounded_sum: "llc (1 - 1 / 2 ^ 53) 0 = Inr 2001"
proof -
  have "(1 - 1 / 2 ^ 53 :: real) + 1 = 2 - 1 / 2 ^ 53" by simp
  then have "round_to_double ((1 - 1 / 2 ^ 53) + 1) = 2"
    by (simp only: round_to_double_tie)
  then show ?thesis
    unfolding llc_def
    by (simp add: round_to_double_minus_1 double_to_int_def truncate_real_def
      int_result_def INT_MIN_def INT_MAX_def)
qed

text \<open>
  C7, amended: for every latitude of at least -1 and every longitude of at most 1 whose
  code fits an \<open>int\<close>, the tile code is
  \<open>floor (latitude + 1) * 1000 + floor (- (longitude - 1))\<close>, where the sum
  \<open>latitude + 1\<close> and the difference \<open>longitude - 1\<close> are those of \<open>double\<close>
  arithmetic, rounded to the nearest \<open>double\<close>; where both are exact this is the formula
  over the exact sums.
\<close>

theorem llc_floor_north_west:
  assumes "- 1 \<le> latitude" and "longitude \<le> 1"
    and "\<lfloor>round_to_double (latitude + 1)\<rfloor> * 1000 + \<lfloor>- round_to_double (longitude - 1)\<rfloor>
           \<le> INT_MAX"
  shows "llc latitude longitude =
           Inr (\<lfloor>round_to_double (latitude + 1)\<rfloor> * 1000 + \<lfloor>- round_to_double (longitude - 1)\<rfloor>)
         \<and> (if round_to_double (latitude + 1) = latitude + 1 \<and>
                round_to_double (longitude - 1) = longitude - 1
             then llc latitude longitude = Inr (\<lfloor>latitude + 1\<rfloor> * 1000 + \<lfloor>- (longitude - 1)\<rfloor>)
             else True)"
proof -
  define x where "x = round_to_double (latitude + 1)"
  define y where "y = - round_to_double (longitude - 1)"
  define A where "A = \<lfloor>x\<rfloor>"
  define B where "B = \<lfloor>y\<rfloor>"
  have x: "0 \<le> x"
    using assms(1) unfolding x_def round_to_double_def by (intro round_binary_nonneg) simp
  have "round_to_double (longitude - 1) \<le> 0"
    using assms(2) unfolding round_to_double_def by (intro round_binary_nonpos) simp
  then have y: "0 \<le> y"
    by (simp add: y_def)
  have a: "0 \<le> A" using x by (simp add: A_def)
  have b: "0 \<le> B" using y by (simp add: B_def)
  have c: "A * 1000 + B \<le> INT_MAX"
    using assms(3) by (simp only: A_def B_def x_def y_def)
  have "double_to_int x = Inr A"
    unfolding double_to_int_def truncate_real_nonneg [OF x] A_def [symmetric] using a b c
    by (intro int_result_Inr) (simp_all add: INT_MIN_def)
  moreover have "int_result (A * 1000) = Inr (A * 1000)"
    using a b c by (intro int_result_Inr) (simp_all add: INT_MIN_def)
  moreover have "double_to_int y = Inr B"
    unfolding double_to_int_def truncate_real_nonneg [OF y] B_def [symmetric] using a b c
    by (intro int_result_Inr) (simp_all add: INT_MIN_def)
  moreover have "int_result (A * 1000 + B) = Inr (A * 1000 + B)"
    using a b c by (intro int_result_Inr) (simp_all add: INT_MIN_def)
  ultimately have "llc latitude longitude = Inr (A * 1000 + B)"
    by (simp add: llc_def x_def [symmetric] y_def [symmetric])
  then have r: "llc latitude longitude =
      Inr (\<lfloor>round_to_double (latitude + 1)\<rfloor> * 1000 + \<lfloor>- round_to_double (longitude - 1)\<rfloor>)"
    by (simp only: A_def B_def x_def y_def)
  show ?thesis
  proof (intro conjI)
    show "llc latitude longitude =
      Inr (\<lfloor>round_to_double (latitude + 1)\<rfloor> * 1000 + \<lfloor>- round_to_double (longitude - 1)\<rfloor>)"
      by (rule r)
    show "if round_to_double (latitude + 1) = latitude + 1 \<and>
             round_to_double (longitude - 1) = longitude - 1
          then llc latitude longitude = Inr (\<lfloor>latitude + 1\<rfloor> * 1000 + \<lfloor>- (longitude - 1)\<rfloor>)
          else True"
    proof (cases "round_to_double (latitude + 1) = latitude + 1 \<and>
             round_to_double (longitude - 1) = longitude - 1")
      case True
      then have "llc latitude longitude = Inr (\<lfloor>latitude + 1\<rfloor> * 1000 + \<lfloor>- (longitude - 1)\<rfloor>)"
        using r by (simp only:)
      then show ?thesis by simp
    next
      case False
      then show ?thesis by (simp only: if_False)
    qed
  qed
qed

theorem llc_floor_north_west_witness:
  "- 1 \<le> (83 / 2 :: real) \<and> (- (211 / 2) :: real) \<le> 1 \<and>
   round_to_double (83 / 2 + 1) = 83 / 2 + 1 \<and>
   round_to_double (- (211 / 2) - 1) = - (211 / 2) - 1 \<and>
   llc (83 / 2) (- (211 / 2)) = Inr 42106"
proof -
  have r1: "round_to_double (83 / 2 + 1) = 83 / 2 + 1"
    using round_to_double_425 by simp
  have r2: "round_to_double (- (211 / 2) - 1) = - (211 / 2) - 1"
    using round_to_double_1065 by simp
  have h1: "- 1 \<le> (83 / 2 :: real)" by simp
  have h2: "(- (211 / 2) :: real) \<le> 1" by simp
  have h3: "\<lfloor>round_to_double (83 / 2 + 1)\<rfloor> * 1000 + \<lfloor>- round_to_double (- (211 / 2) - 1)\<rfloor>
      \<le> INT_MAX"
    unfolding r1 r2 by (simp add: INT_MAX_def)
  have "llc (83 / 2) (- (211 / 2)) = Inr (\<lfloor>(83 / 2 :: real) + 1\<rfloor> * 1000 + \<lfloor>- ((- (211 / 2) :: real) - 1)\<rfloor>)"
    using llc_floor_north_west [OF h1 h2 h3] r1 r2 by (simp only: if_True simp_thms)
  then have "llc (83 / 2) (- (211 / 2)) = Inr 42106"
    by simp
  then show ?thesis
    using r1 r2 by simp
qed

subsection \<open>Distances\<close>

lemma atan2_pos: "0 < y \<Longrightarrow> 0 < atan2 y x"
proof -
  assume y: "0 < y"
  consider "0 < x" | "x < 0" | "x = 0" by linarith
  then show ?thesis
  proof cases
    case 1
    then show ?thesis using y by (simp add: atan2_def arctan_less_zero_iff zero_less_arctan_iff)
  next
    case 2
    have "0 < arctan (y / x) + pi"
      using arctan_lbound [of "y / x"] pi_gt_zero by linarith
    then show ?thesis using 2 y by (simp add: atan2_def)
  next
    case 3
    then show ?thesis using y by (simp add: atan2_def)
  qed
qed

lemma atan2_zero: "0 \<le> x \<Longrightarrow> atan2 0 x = 0"
  by (simp add: atan2_def)

lemma atan2_nonneg: "0 \<le> y \<Longrightarrow> 0 \<le> atan2 y x"
  using atan2_pos [of y x] by (cases "y = 0") (auto simp: atan2_def)

lemma PI_bounds: "3 < PI" "PI < 4"
  by (simp_all add: PI_def)

lemma DTOR_pos: "0 < DTOR"
  by (simp add: DTOR_def PI_def)

lemma distance_self: "distance lat long lat long = 0"
  by (simp add: distance_def atan2_def)

lemma distance_same_longitude:
  "distance lat1 long lat2 long =
     RE * (2 * atan2 (sqrt ((sin ((lat2 - lat1) / 2 * DTOR))\<^sup>2))
                    (sqrt (1 - (sin ((lat2 - lat1) / 2 * DTOR))\<^sup>2)))"
  by (simp add: distance_def Let_def power2_eq_square)

lemma atan2_sin_cos:
  assumes "0 < x" "x < 1"
  shows "atan2 (sqrt ((sin x)\<^sup>2)) (sqrt (1 - (sin x)\<^sup>2)) = x"
proof -
  have xpi: "x < pi / 2" using assms pi_ge_two by linarith
  have c: "0 < cos x" using assms xpi by (intro cos_gt_zero_pi) linarith+
  have s: "0 < sin x" using assms xpi pi_gt_zero by (intro sin_gt_zero) linarith+
  have b: "1 - (sin x)\<^sup>2 = (cos x)\<^sup>2"
    using sin_cos_squared_add [of x] by linarith
  have "atan2 (sqrt ((sin x)\<^sup>2)) (sqrt ((cos x)\<^sup>2)) = arctan (tan x)"
    using c s by (simp add: atan2_def tan_def)
  also have "\<dots> = x" using assms xpi by (intro arctan_tan) linarith+
  finally show ?thesis by (simp add: b)
qed

lemma distance_meridian:
  assumes "lat1 \<noteq> lat2" and "\<bar>lat2 - lat1\<bar> \<le> 100"
  shows "distance lat1 long lat2 long = RE * (\<bar>lat2 - lat1\<bar> * DTOR)"
proof -
  define d where "d = lat2 - lat1"
  define x where "x = \<bar>d\<bar> / 2 * DTOR"
  have d: "d \<noteq> 0" "\<bar>d\<bar> \<le> 100" using assms by (simp_all add: d_def)
  have x0: "0 < x" using d DTOR_pos by (simp add: x_def)
  have "x \<le> 50 * DTOR" using d DTOR_pos by (simp add: x_def)
  also have "\<dots> < 1" by (simp add: DTOR_def PI_def)
  finally have x1: "x < 1" .
  have eq: "(sin (d / 2 * DTOR))\<^sup>2 = (sin x)\<^sup>2"
  proof (cases "0 \<le> d")
    case True
    then show ?thesis by (simp add: x_def)
  next
    case False
    then have "d / 2 * DTOR = - x" by (simp add: x_def)
    then show ?thesis by simp
  qed
  have "distance lat1 long lat2 long = RE * (2 * x)"
    unfolding distance_same_longitude d_def [symmetric] eq
    by (simp only: atan2_sin_cos [OF x0 x1])
  then show ?thesis
    by (simp add: x_def d_def)
qed

subsection \<open>Indices and cell centres\<close>

lemma round_to_float_9998: "round_to_float (- 9998) = - 9998"
  using round_to_float_of_int [of "- 9998"] by simp

lemma nodata_file_values:
  "nodata_file = [- 9999, - 9999, - 9999, - 9999, - 9999, - 9999, - 9999, - 9999, - 9999]"
  by (simp add: nodata_file_def eval_nat_numeral)

lemma example_tile_constructed:
  "grid_float_tile_ctor 3 3 0 0 1 (- 9999) (- 9999) ''LSBFIRST'' example_file False = Inr example_tile"
  by (simp add: grid_float_tile_ctor_def example_tile_def example_file_def count_invalid_def
      round_to_float_9998 int_result_def INT_MIN_def INT_MAX_def numeral_3_eq_3)

lemma nodata_tile_constructed:
  "grid_float_tile_ctor 3 3 0 0 1 (- 9999) (- 9999) ''LSBFIRST'' nodata_file False = Inr nodata_tile"
  by (simp add: grid_float_tile_ctor_def nodata_tile_def nodata_file_values count_invalid_def
      round_to_float_9998 int_result_def INT_MIN_def INT_MAX_def numeral_3_eq_3)

lemma double_to_int_half: 
  assumes "0 \<le> n" "n \<le> INT_MAX"
  shows "double_to_int (real_of_int n + 1 / 2) = Inr n"
proof -
  have "\<lfloor>real_of_int n + 1 / 2\<rfloor> = n" by linarith
  then show ?thesis using assms
    by (simp add: double_to_int_def truncate_real_def int_result_def INT_MIN_def)
qed

text \<open>
  C8: for every tile with a cell size other than 0 and every valid index pair
  \<open>0 \<le> row < nrows\<close>, \<open>0 \<le> col < ncols\<close>, the centre of the cell is
  \<open>(north - cellsize / 2 - row * cellsize, west + cellsize / 2 + col * cellsize)\<close> and
  \<open>index_pair\<close> maps it back to \<open>(row, col)\<close>.  The sizes of a tile are \<open>int\<close>s,
  hence at most \<open>INT_MAX\<close>.
\<close>

theorem index_pair_cell_centre:
  assumes "cellsize t \<noteq> 0"
    and "0 \<le> row" and "row < n_rows t" and "n_rows t \<le> INT_MAX"
    and "0 \<le> col" and "col < n_columns t" and "n_columns t \<le> INT_MAX"
  shows "cell_centre t (row, col) =
           (yt t - cellsize t / 2 - real_of_int row * cellsize t,
            xl t + cellsize t / 2 + real_of_int col * cellsize t)
         \<and> index_pair t (fst (cell_centre t (row, col))) (snd (cell_centre t (row, col)))
             = Inr (row, col)"
proof -
  have r: "(yt t - (yt t - cellsize t / 2 - real_of_int row * cellsize t)) / cellsize t
      = real_of_int row + 1 / 2"
    using assms(1) by (simp add: field_simps)
  have c: "(xl t + cellsize t / 2 + real_of_int col * cellsize t - xl t) / cellsize t
      = real_of_int col + 1 / 2"
    using assms(1) by (simp add: field_simps)
  have "map_latitude_to_index t (yt t - cellsize t / 2 - real_of_int row * cellsize t) = Inr row"
    unfolding map_latitude_to_index_def Let_def r
    using assms by (simp add: double_to_int_half)
  moreover have "map_longitude_to_index t (xl t + cellsize t / 2 + real_of_int col * cellsize t) = Inr col"
    unfolding map_longitude_to_index_def Let_def c
    using assms by (simp add: double_to_int_half)
  ultimately show ?thesis
    by (simp add: cell_centre_def index_pair_def)
qed

theorem index_pair_cell_centre_witness:
  "cellsize example_tile \<noteq> 0 \<and> (0::int) \<le> 1 \<and> 1 < n_rows example_tile \<and> n_rows example_tile \<le> INT_MAX \<and>
   (0::int) \<le> 2 \<and> 2 < n_columns example_tile \<and> n_columns example_tile \<le> INT_MAX \<and>
   cell_centre example_tile (1, 2) = (3 / 2, 5 / 2) \<and>
   index_pair example_tile (3 / 2) (5 / 2) = Inr (1, 2)"
proof -
  have h: "cellsize example_tile \<noteq> 0" "(0::int) \<le> 1" "1 < n_rows example_tile" "n_rows example_tile \<le> INT_MAX"
   "(0::int) \<le> 2" "2 < n_columns example_tile" "n_columns example_tile \<le> INT_MAX"
    by (simp_all add: example_tile_def INT_MAX_def)
  have c: "cell_centre example_tile (1, 2) = (3 / 2, 5 / 2)"
    by (simp add: cell_centre_def example_tile_def)
  show ?thesis
    using h index_pair_cell_centre [OF h] by (simp add: c)
qed

subsection \<open>Interpolation at the centre of a cell\<close>

text \<open>
  C3: at a point less than 1 metre from the centre of its cell, where \<open>cell_value\<close>
  yields the value \<open>cv\<close>, \<open>interpolated_value\<close> returns exactly \<open>cv\<close> when \<open>cv\<close>
  is at least -9000 and raises the NODATA error of quadrant Q0 when \<open>cv\<close> is below
  -9000.
\<close>

theorem interpolated_value_at_centre:
  assumes "cell_centre_ll t latitude longitude = Inr centre"
    and "distance_ll centre latitude longitude < 1"
    and "cell_value t latitude longitude = Inr cv"
  shows "interpolated_value t latitude longitude =
           (if cv < - 9000 then Inl (Grid_float_nodata Q0 latitude longitude) else Inr cv)"
proof -
  have "quadrant t latitude longitude = Inr Q0"
    using assms(1,2) by (simp add: quadrant_def)
  then show ?thesis
    using assms(1,3) by (simp add: interpolated_value_def)
qed

lemma example_index_pair:
  "index_pair example_tile (3 / 2) (3 / 2) = Inr (1, 1)"
  by (simp add: index_pair_def map_latitude_to_index_def map_longitude_to_index_def
      double_to_int_def truncate_real_def int_result_def INT_MIN_def INT_MAX_def example_tile_def)

theorem interpolated_value_at_centre_witness:
  "cell_centre_ll example_tile (3 / 2) (3 / 2) = Inr (3 / 2, 3 / 2) \<and>
   distance_ll (3 / 2, 3 / 2) (3 / 2) (3 / 2) < 1 \<and>
   cell_value example_tile (3 / 2) (3 / 2) = Inr 5 \<and>
   interpolated_value example_tile (3 / 2) (3 / 2) = Inr 5"
proof -
  have h1: "cell_centre_ll example_tile (3 / 2) (3 / 2) = Inr (3 / 2, 3 / 2)"
    by (simp add: cell_centre_ll_def example_index_pair) (simp add: cell_centre_def example_tile_def)
  have h2: "distance_ll (3 / 2, 3 / 2) (3 / 2) (3 / 2) < 1"
    by (simp add: distance_ll_def distance_self)
  have h3: "cell_value example_tile (3 / 2) (3 / 2) = Inr 5"
    by (simp add: cell_value_def is_in_tile_def is_between_def map_latitude_to_index_def map_longitude_to_index_def
      double_to_int_def truncate_real_def int_result_def INT_MIN_def INT_MAX_def vector_at_def example_tile_def)
  show ?thesis
    using h1 h2 h3 interpolated_value_at_centre [OF h1 h2 h3] by simp
qed

subsection \<open>Quadrants\<close>

text \<open>
  C10: a point at least 1 metre (in particular: more than 1 metre) from the centre
  \<open>(c_latitude, c_longitude)\<close> of its cell is in Q1 when its latitude and its longitude
  are both at least those of the centre; a remaining point is in Q2 when its latitude is
  at least that of the centre; a remaining point is in Q3 when its longitude is at most
  that of the centre; every other point is in Q4.  So a point on one of the two lines
  through the centre, above or to the right of it, is in Q1, and \<open>interpolated_value\<close>
  takes the branch of Q1 there.
\<close>

theorem quadrant_tie_breaking:
  assumes "cell_centre_ll t latitude longitude = Inr (c_latitude, c_longitude)"
    and "1 \<le> distance c_latitude c_longitude latitude longitude"
  shows "quadrant t latitude longitude =
           Inr (if latitude \<ge> c_latitude \<and> longitude \<ge> c_longitude then Q1
                else if latitude \<ge> c_latitude then Q2
                else if longitude \<le> c_longitude then Q3
                else Q4)
         \<and> (if latitude \<ge> c_latitude \<and> longitude \<ge> c_longitude
            then interpolated_value t latitude longitude =
                   interpolated_Q1 t (c_latitude, c_longitude) latitude longitude
            else True)"
proof -
  have q: "quadrant t latitude longitude =
           Inr (if latitude \<ge> c_latitude \<and> longitude \<ge> c_longitude then Q1
                else if latitude \<ge> c_latitude then Q2
                else if longitude \<le> c_longitude then Q3
                else Q4)"
    using assms by (simp add: quadrant_def distance_ll_def Let_def not_less [symmetric])
  show ?thesis
    unfolding q using assms(1) by (simp add: interpolated_value_def q)
qed

lemma RE_DTOR_quarter: "1 \<le> RE * (1 / 4 * DTOR)"
  by (simp add: RE_def DTOR_def PI_def)

theorem quadrant_tie_breaking_witness:
  "cell_centre_ll example_tile (7 / 4) (3 / 2) = Inr (3 / 2, 3 / 2) \<and>
   1 \<le> distance (3 / 2) (3 / 2) (7 / 4) (3 / 2) \<and>
   quadrant example_tile (7 / 4) (3 / 2) = Inr Q1"
proof -
  have ip: "index_pair example_tile (7 / 4) (3 / 2) = Inr (1, 1)"
    by (simp add: index_pair_def map_latitude_to_index_def map_longitude_to_index_def
      double_to_int_def truncate_real_def int_result_def INT_MIN_def INT_MAX_def example_tile_def)
  have h1: "cell_centre_ll example_tile (7 / 4) (3 / 2) = Inr (3 / 2, 3 / 2)"
    by (simp add: cell_centre_ll_def ip) (simp add: cell_centre_def example_tile_def)
  have "distance (3 / 2) (3 / 2) (7 / 4) (3 / 2) = RE * (\<bar>7 / 4 - 3 / 2\<bar> * DTOR)"
    by (rule distance_meridian) simp_all
  then have h2: "1 \<le> distance (3 / 2) (3 / 2) (7 / 4) (3 / 2)"
    using RE_DTOR_quarter by simp
  show ?thesis
    using h1 h2 quadrant_tie_breaking [OF h1 h2] by simp
qed

subsection \<open>Containment and indices\<close>

lemma map_latitude_to_index_in_tile:
  assumes "0 < cellsize t" and "0 \<le> n_rows t" and "n_rows t \<le> INT_MAX"
    and "yt t = yb t + cellsize t * real_of_int (n_rows t)"
    and "is_between latitude (yb t) (yt t)"
  shows "\<exists>row. map_latitude_to_index t latitude = Inr row \<and> 0 \<le> row \<and>
           (if yb t < latitude then row < n_rows t else row = n_rows t)"
proof -
  define q where "q = (yt t - latitude) / cellsize t"
  have "yb t \<le> yt t" using assms(1,2,4) by simp
  then have lat: "yb t \<le> latitude" "latitude \<le> yt t"
    using assms(5) by (auto simp: is_between_def split: if_splits)
  have q0: "0 \<le> q" using lat assms(1) by (simp add: q_def)
  have qn: "q \<le> real_of_int (n_rows t)"
    using lat assms(1,4) by (simp add: q_def field_simps)
  have qlt: "q < real_of_int (n_rows t)" if "yb t < latitude"
    using that assms(1,4) by (simp add: q_def field_simps)
  have qeq: "q = real_of_int (n_rows t)" if "\<not> yb t < latitude"
  proof -
    from that lat have "latitude = yb t" by simp
    then show ?thesis using assms(1,4) by (simp add: q_def)
  qed
  have f0: "0 \<le> \<lfloor>q\<rfloor>" using q0 by simp
  have fn: "\<lfloor>q\<rfloor> \<le> n_rows t" using qn by (simp add: floor_le_iff)
  have "map_latitude_to_index t latitude = Inr \<lfloor>q\<rfloor>"
    using assms(1,3) q0 f0 fn
    by (simp add: map_latitude_to_index_def q_def [symmetric] double_to_int_def
        truncate_real_def int_result_def INT_MIN_def)
  moreover have "\<lfloor>q\<rfloor> < n_rows t" if "yb t < latitude"
    using qlt [OF that] by (simp add: floor_less_iff)
  moreover have "\<lfloor>q\<rfloor> = n_rows t" if "\<not> yb t < latitude"
    using qeq [OF that] by simp
  ultimately show ?thesis using f0 by auto
qed

lemma map_longitude_to_index_in_tile:
  assumes "0 < cellsize t" and "0 \<le> n_columns t" and "n_columns t \<le> INT_MAX"
    and "xr t = xl t + cellsize t * real_of_int (n_columns t)"
    and "is_between longitude (xl t) (xr t)"
  shows "\<exists>col. map_longitude_to_index t longitude = Inr col \<and> 0 \<le> col \<and>
           (if longitude < xr t then col < n_columns t else col = n_columns t)"
proof -
  define q where "q = (longitude - xl t) / cellsize t"
  have "xl t \<le> xr t" using assms(1,2,4) by simp
  then have lon: "xl t \<le> longitude" "longitude \<le> xr t"
    using assms(5) by (auto simp: is_between_def split: if_splits)
  have q0: "0 \<le> q" using lon assms(1) by (simp add: q_def)
  have qn: "q \<le> real_of_int (n_columns t)"
    using lon assms(1,4) by (simp add: q_def field_simps)
  have qlt: "q < real_of_int (n_columns t)" if "longitude < xr t"
    using that assms(1,4) by (simp add: q_def field_simps)
  have qeq: "q = real_of_int (n_columns t)" if "\<not> longitude < xr t"
  proof -
    from that lon have "longitude = xr t" by simp
    then show ?thesis using assms(1,4) by (simp add: q_def)
  qed
  have f0: "0 \<le> \<lfloor>q\<rfloor>" using q0 by simp
  have fn: "\<lfloor>q\<rfloor> \<le> n_columns t" using qn by (simp add: floor_le_iff)
  have "map_longitude_to_index t longitude = Inr \<lfloor>q\<rfloor>"
    using assms(1,3) q0 f0 fn
    by (simp add: map_longitude_to_index_def q_def [symmetric] double_to_int_def
        truncate_real_def int_result_def INT_MIN_def)
  moreover have "\<lfloor>q\<rfloor> < n_columns t" if "longitude < xr t"
    using qlt [OF that] by (simp add: floor_less_iff)
  moreover have "\<lfloor>q\<rfloor> = n_columns t" if "\<not> longitude < xr t"
    using qeq [OF that] by simp
  ultimately show ?thesis using f0 by auto
qed

text \<open>
  C1: for every point with \<open>is_in_tile\<close> the row index is in \<open>[0, nrows)\<close> and the
  column index in \<open>[0, ncols)\<close>, so that the access of \<open>cell_value\<close> is in bounds.
  The two lemmas above give what the source achieves: the indices are in \<open>[0, nrows]\<close>
  and \<open>[0, ncols]\<close>, and they reach \<open>nrows\<close> on the southern edge and \<open>ncols\<close>
  on the eastern edge, which \<open>is_in_tile\<close> includes.  There \<open>cell_value\<close> passes the
  containment check and reads \<open>_data [nrows]\<close>, resp. \<open>_data [row] [ncols]\<close>:
\<close>

theorem cell_value_on_the_edge:
  "is_in_tile example_tile 0 (1 / 2) \<and>
   map_latitude_to_index example_tile 0 = Inr 3 \<and> n_rows example_tile = 3 \<and>
   cell_value example_tile 0 (1 / 2) = Inl Undefined_behaviour \<and>
   is_in_tile example_tile (1 / 2) 3 \<and>
   map_longitude_to_index example_tile 3 = Inr 3 \<and> n_columns example_tile = 3 \<and>
   cell_value example_tile (1 / 2) 3 = Inl Undefined_behaviour"
  by (simp add: cell_value_def is_in_tile_def is_between_def map_latitude_to_index_def
      map_longitude_to_index_def double_to_int_def truncate_real_def int_result_def
      INT_MIN_def INT_MAX_def vector_at_def example_tile_def)

subsection \<open>Destination from bearing and distance\<close>

lemma cos_one_gt_zero: "0 < cos (1::real)"
proof -
  have s0: "0 \<le> sin (1 / 2 :: real)"
    using sin_gt_zero_02 [of "1 / 2 :: real"] by simp
  have s1: "sin (1 / 2 :: real) \<le> 1 / 2"
    using sin_x_le_x [of "1 / 2 :: real"] by simp
  have "(sin (1 / 2 :: real))\<^sup>2 \<le> (1 / 2)\<^sup>2"
    using s1 s0 by (rule power_mono)
  then have "(sin (1 / 2 :: real))\<^sup>2 \<le> 1 / 4"
    by (simp add: power2_eq_square)
  moreover have "cos (1::real) = 1 - 2 * (sin (1 / 2))\<^sup>2"
    using cos_double_sin [of "1 / 2 :: real"] by simp
  ultimately show ?thesis by linarith
qed

lemma sin_one_less_one: "sin (1::real) < 1"
proof -
  have "(sin (1::real))\<^sup>2 + (cos 1)\<^sup>2 = 1" by (rule sin_cos_squared_add)
  moreover have "0 < (cos (1::real))\<^sup>2" using cos_one_gt_zero by simp
  ultimately have "(sin (1::real))\<^sup>2 < 1" by linarith
  then have "sin (1::real) \<noteq> 1" by auto
  then show ?thesis using sin_le_one [of "1::real"] by linarith
qed

lemma sin_one_ge_zero: "0 \<le> sin (1::real)"
  using sin_gt_zero_02 [of "1::real"] by simp

text \<open>
  C5: \<open>ll_from_bd\<close> returns the destination of the documented forward formula.  The
  source writes \<open>asin (sin (lat1_r * cos (delta) + ...))\<close>: the parenthesis of the first
  \<open>sin\<close> closes after the whole sum instead of after \<open>lat1_r\<close>.  From latitude 0,
  longitude 0, on bearing 0 over 6371000 metres (\<open>delta = 1\<close>) the source yields the
  latitude \<open>sin 1\<close> radians where the documented formula yields 1 radian:
\<close>

theorem ll_from_bd_not_documented:
  "ll_from_bd 0 0 0 6371000 = (sin 1 * RTOD, 0) \<and>
   ll_from_bd_documented 0 0 0 6371000 = (1 * RTOD, 0) \<and>
   fst (ll_from_bd 0 0 0 6371000) < fst (ll_from_bd_documented 0 0 0 6371000)"
proof -
  have pi2: "(1::real) \<le> pi / 2" using pi_ge_two by simp
  have a1: "arcsin (sin (sin (1::real))) = sin 1"
    using sin_one_ge_zero sin_le_one [of "1::real"] pi2 by (intro arcsin_sin) linarith+
  have a2: "arcsin (sin (1::real)) = 1"
    using pi2 by (intro arcsin_sin) linarith+
  have at: "atan2 0 (cos (1::real)) = 0"
    using cos_one_gt_zero by (simp add: atan2_def)
  have c: "ll_from_bd 0 0 0 6371000 = (sin 1 * RTOD, 0)"
    by (simp add: ll_from_bd_def RE_def a1 at)
  have d: "ll_from_bd_documented 0 0 0 6371000 = (1 * RTOD, 0)"
    by (simp add: ll_from_bd_documented_def RE_def a2 at)
  have "0 < RTOD" by (simp add: RTOD_def DTOR_def PI_def)
  then have "sin 1 * RTOD < 1 * RTOD"
    using sin_one_less_one by (simp only: mult_less_cancel_right_pos)
  then show ?thesis using c d by simp
qed

subsection \<open>The weighted mean\<close>

lemma weighted_sums_eq:
  "0 \<notin> snd ` set cells \<Longrightarrow>
   weighted_sums cells (h, w) =
     Inr (h + (\<Sum>(height, distance_n)\<leftarrow>cells. height / distance_n),
          w + sum_inverse_distances cells)"
  by (induction cells arbitrary: h w) (auto simp: sum_inverse_distances_def)

text \<open>
  \<open>valid_height\<close>: where \<open>nodata + 1\<close> is an \<open>int\<close> that \<open>float\<close> holds exactly the
  test is \<open>h > nodata + 1\<close>; where the sum overflows it is undefined.
\<close>

lemma valid_height_exact:
  assumes "\<bar>nodata t + 1\<bar> \<le> 2 ^ 24"
  shows "valid_height t h = Inr (h > real_of_int (nodata t) + 1)"
proof -
  have "int_result (nodata t + 1) = Inr (nodata t + 1)"
    using assms by (intro int_result_Inr) (simp_all add: INT_MIN_def INT_MAX_def)
  moreover have "round_to_float (real_of_int (nodata t + 1)) = real_of_int (nodata t) + 1"
    using round_to_float_of_int [OF assms] by simp
  ultimately show ?thesis
    by (simp add: valid_height_def)
qed

lemma valid_height_overflow:
  "INT_MAX < nodata t + 1 \<Longrightarrow> valid_height t h = Inl Undefined_behaviour"
  by (simp add: valid_height_def int_result_def)

lemma weighted_sums_valid_overflow:
  "INT_MAX < nodata t + 1 \<Longrightarrow>
   weighted_sums_valid t ((height, distance_n) # rest) (h, w) = Inl Undefined_behaviour"
  by (simp add: valid_height_overflow)

lemma weighted_sums_valid_eq:
  assumes "\<bar>nodata t + 1\<bar> \<le> 2 ^ 24"
    and "0 \<notin> snd ` set (contributing t Q1 cells)"
  shows "weighted_sums_valid t cells (h, w) =
     Inr (h + (\<Sum>(height, distance_n)\<leftarrow>contributing t Q1 cells. height / distance_n),
          w + sum_inverse_distances (contributing t Q1 cells))"
  using assms(2)
  by (induction cells arbitrary: h w)
    (auto simp: sum_inverse_distances_def contributing_def valid_height_exact [OF assms(1)])

lemma collect_results_3:
  "collect_results [a, b, c] = Inr xs \<longleftrightarrow>
     (\<exists>x y z. a = Inr x \<and> b = Inr y \<and> c = Inr z \<and> xs = [x, y, z])"
  by (cases a; cases b; cases c) auto

lemma neighbour_sample_eq_Inr:
  "neighbour_sample t latitude longitude indices_0 offset = Inr p \<longleftrightarrow>
     (\<exists>height. int_result (fst indices_0 + fst offset) = Inr (fst indices_0 + fst offset) \<and>
        int_result (snd indices_0 + snd offset) = Inr (snd indices_0 + snd offset) \<and>
        cell_value_ip t (fst indices_0 + fst offset, snd indices_0 + snd offset) = Inr height \<and>
        p = (height,
             distance_ll (cell_centre t (fst indices_0 + fst offset, snd indices_0 + snd offset))
               latitude longitude))"
  by (auto simp: neighbour_sample_def bind_result_eq_Inr int_result_eq_Inr)

lemma quadrant_cells_eq_Inr:
  "quadrant_cells t q latitude longitude = Inr cells \<longleftrightarrow>
     (\<exists>centre indices_0 height_0 others.
        cell_centre_ll t latitude longitude = Inr centre \<and>
        index_pair t latitude longitude = Inr indices_0 \<and>
        cell_value t latitude longitude = Inr height_0 \<and>
        collect_results
          (map (neighbour_sample t latitude longitude indices_0) (neighbour_offsets q))
          = Inr others \<and>
        cells = (height_0, distance_ll centre latitude longitude) # others)"
  by (auto simp: quadrant_cells_def bind_result_eq_Inr)

lemma interpolated_Q1_cells:
  assumes "cell_centre_ll t latitude longitude = Inr centre"
    and "quadrant_cells t Q1 latitude longitude = Inr cells"
  shows "interpolated_Q1 t centre latitude longitude =
     bind_result (weighted_sums_valid t cells (0, 0)) (\<lambda>(h, inv_d).
       if inv_d = 0 then Inl (Grid_float_nodata Q1 latitude longitude) else Inr (h / inv_d))"
proof -
  from assms(2) obtain indices_0 height_0 others where
    ip: "index_pair t latitude longitude = Inr indices_0" and
    cv: "cell_value t latitude longitude = Inr height_0" and
    co: "collect_results
          (map (neighbour_sample t latitude longitude indices_0) (neighbour_offsets Q1))
          = Inr others" and
    ce: "cells = (height_0, distance_ll centre latitude longitude) # others"
    unfolding quadrant_cells_eq_Inr using assms(1) by auto
  from co have "\<exists>x y z.
      neighbour_sample t latitude longitude indices_0 (0, 1) = Inr x \<and>
      neighbour_sample t latitude longitude indices_0 (- 1, 0) = Inr y \<and>
      neighbour_sample t latitude longitude indices_0 (- 1, 1) = Inr z \<and> others = [x, y, z]"
    by (simp only: neighbour_offsets_def QUADRANT.case list.map collect_results_3)
  then obtain h1 h2 h3 where
    "int_result (snd indices_0 + 1) = Inr (snd indices_0 + 1)"
    "int_result (fst indices_0 - 1) = Inr (fst indices_0 - 1)"
    "cell_value_ip t (fst indices_0, snd indices_0 + 1) = Inr h1"
    "cell_value_ip t (fst indices_0 - 1, snd indices_0) = Inr h2"
    "cell_value_ip t (fst indices_0 - 1, snd indices_0 + 1) = Inr h3"
    "others = [(h1, distance_ll (cell_centre t (fst indices_0, snd indices_0 + 1)) latitude longitude),
               (h2, distance_ll (cell_centre t (fst indices_0 - 1, snd indices_0)) latitude longitude),
               (h3, distance_ll (cell_centre t (fst indices_0 - 1, snd indices_0 + 1)) latitude longitude)]"
    by (simp add: neighbour_sample_eq_Inr) blast
  then show ?thesis
    by (simp add: interpolated_Q1_def ip cv ce Let_def)
qed

lemma interpolated_Q2_cells:
  assumes "cell_centre_ll t latitude longitude = Inr centre"
    and "quadrant_cells t Q2 latitude longitude = Inr cells"
  shows "interpolated_Q2 t centre latitude longitude =
     bind_result (weighted_sums cells (0, 0)) (\<lambda>(h, inv_d).
       if inv_d = 0 then Inl (Grid_float_nodata Q2 latitude longitude) else Inr (h / inv_d))"
proof -
  from assms(2) obtain indices_0 height_0 others where
    ip: "index_pair t latitude longitude = Inr indices_0" and
    cv: "cell_value t latitude longitude = Inr height_0" and
    co: "collect_results
          (map (neighbour_sample t latitude longitude indices_0) (neighbour_offsets Q2))
          = Inr others" and
    ce: "cells = (height_0, distance_ll centre latitude longitude) # others"
    unfolding quadrant_cells_eq_Inr using assms(1) by auto
  from co have "\<exists>x y z.
      neighbour_sample t latitude longitude indices_0 (0, - 1) = Inr x \<and>
      neighbour_sample t latitude longitude indices_0 (- 1, 0) = Inr y \<and>
      neighbour_sample t latitude longitude indices_0 (- 1, - 1) = Inr z \<and> others = [x, y, z]"
    by (simp only: neighbour_offsets_def QUADRANT.case list.map collect_results_3)
  then obtain h1 h2 h3 where
    "int_result (snd indices_0 - 1) = Inr (snd indices_0 - 1)"
    "int_result (fst indices_0 - 1) = Inr (fst indices_0 - 1)"
    "cell_value_ip t (fst indices_0, snd indices_0 - 1) = Inr h1"
    "cell_value_ip t (fst indices_0 - 1, snd indices_0) = Inr h2"
    "cell_value_ip t (fst indices_0 - 1, snd indices_0 - 1) = Inr h3"
    "others = [(h1, distance_ll (cell_centre t (fst indices_0, snd indices_0 - 1)) latitude longitude),
               (h2, distance_ll (cell_centre t (fst indices_0 - 1, snd indices_0)) latitude longitude),
               (h3, distance_ll (cell_centre t (fst indices_0 - 1, snd indices_0 - 1)) latitude longitude)]"
    by (simp add: neighbour_sample_eq_Inr) blast
  then show ?thesis
    by (simp add: interpolated_Q2_def ip cv ce Let_def)
qed

lemma interpolated_Q3_cells:
  assumes "cell_centre_ll t latitude longitude = Inr centre"
    and "quadrant_cells t Q3 latitude longitude = Inr cells"
  shows "interpolated_Q3 t centre latitude longitude =
     bind_result (weighted_sums cells (0, 0)) (\<lambda>(h, inv_d).
       if inv_d = 0 then Inl (Grid_float_nodata Q3 latitude longitude) else Inr (h / inv_d))"
proof -
  from assms(2) obtain indices_0 height_0 others where
    ip: "index_pair t latitude longitude = Inr indices_0" and
    cv: "cell_value t latitude longitude = Inr height_0" and
    co: "collect_results
          (map (neighbour_sample t latitude longitude indices_0) (neighbour_offsets Q3))
          = Inr others" and
    ce: "cells = (height_0, distance_ll centre latitude longitude) # others"
    unfolding quadrant_cells_eq_Inr using assms(1) by auto
  from co have "\<exists>x y z.
      neighbour_sample t latitude longitude indices_0 (0, - 1) = Inr x \<and>
      neighbour_sample t latitude longitude indices_0 (1, 0) = Inr y \<and>
      neighbour_sample t latitude longitude indices_0 (1, - 1) = Inr z \<and> others = [x, y, z]"
    by (simp only: neighbour_offsets_def QUADRANT.case list.map collect_results_3)
  then obtain h1 h2 h3 where
    "int_result (snd indices_0 - 1) = Inr (snd indices_0 - 1)"
    "int_result (fst indices_0 + 1) = Inr (fst indices_0 + 1)"
    "cell_value_ip t (fst indices_0, snd indices_0 - 1) = Inr h1"
    "cell_value_ip t (fst indices_0 + 1, snd indices_0) = Inr h2"
    "cell_value_ip t (fst indices_0 + 1, snd indices_0 - 1) = Inr h3"
    "others = [(h1, distance_ll (cell_centre t (fst indices_0, snd indices_0 - 1)) latitude longitude),
               (h2, distance_ll (cell_centre t (fst indices_0 + 1, snd indices_0)) latitude longitude),
               (h3, distance_ll (cell_centre t (fst indices_0 + 1, snd indices_0 - 1)) latitude longitude)]"
    by (simp add: neighbour_sample_eq_Inr) blast
  then show ?thesis
    by (simp add: interpolated_Q3_def ip cv ce Let_def)
qed

lemma interpolated_Q4_cells:
  assumes "cell_centre_ll t latitude longitude = Inr centre"
    and "quadrant_cells t Q4 latitude longitude = Inr cells"
  shows "interpolated_Q4 t centre latitude longitude =
     bind_result (weighted_sums cells (0, 0)) (\<lambda>(h, inv_d).
       if inv_d = 0 then Inl (Grid_float_nodata Q4 latitude longitude) else Inr (h / inv_d))"
proof -
  from assms(2) obtain indices_0 height_0 others where
    ip: "index_pair t latitude longitude = Inr indices_0" and
    cv: "cell_value t latitude longitude = Inr height_0" and
    co: "collect_results
          (map (neighbour_sample t latitude longitude indices_0) (neighbour_offsets Q4))
          = Inr others" and
    ce: "cells = (height_0, distance_ll centre latitude longitude) # others"
    unfolding quadrant_cells_eq_Inr using assms(1) by auto
  from co have "\<exists>x y z.
      neighbour_sample t latitude longitude indices_0 (0, 1) = Inr x \<and>
      neighbour_sample t latitude longitude indices_0 (1, 0) = Inr y \<and>
      neighbour_sample t latitude longitude indices_0 (1, 1) = Inr z \<and> others = [x, y, z]"
    by (simp only: neighbour_offsets_def QUADRANT.case list.map collect_results_3)
  then obtain h1 h2 h3 where
    "int_result (snd indices_0 + 1) = Inr (snd indices_0 + 1)"
    "int_result (fst indices_0 + 1) = Inr (fst indices_0 + 1)"
    "cell_value_ip t (fst indices_0, snd indices_0 + 1) = Inr h1"
    "cell_value_ip t (fst indices_0 + 1, snd indices_0) = Inr h2"
    "cell_value_ip t (fst indices_0 + 1, snd indices_0 + 1) = Inr h3"
    "others = [(h1, distance_ll (cell_centre t (fst indices_0, snd indices_0 + 1)) latitude longitude),
               (h2, distance_ll (cell_centre t (fst indices_0 + 1, snd indices_0)) latitude longitude),
               (h3, distance_ll (cell_centre t (fst indices_0 + 1, snd indices_0 + 1)) latitude longitude)]"
    by (simp add: neighbour_sample_eq_Inr) blast
  then show ?thesis
    by (simp add: interpolated_Q4_def ip cv ce Let_def)
qed


lemma interpolated_value_mean:
  assumes "quadrant t latitude longitude = Inr q" and "q \<noteq> Q0"
    and "quadrant_cells t q latitude longitude = Inr cells"
    and "0 \<notin> snd ` set (contributing t q cells)"
    and "q = Q1 \<Longrightarrow> \<bar>nodata t + 1\<bar> \<le> 2 ^ 24"
  shows "interpolated_value t latitude longitude =
           (if sum_inverse_distances (contributing t q cells) = 0
            then Inl (Grid_float_nodata q latitude longitude)
            else Inr (inverse_distance_mean (contributing t q cells)))"
proof -
  from assms(3) obtain centre where
    centre: "cell_centre_ll t latitude longitude = Inr centre"
    unfolding quadrant_cells_eq_Inr by blast
  have iv: "interpolated_value t latitude longitude =
      (case q of
         Q0 \<Rightarrow> bind_result (cell_value t latitude longitude) (\<lambda>cv.
           if cv < - 9000 then Inl (Grid_float_nodata Q0 latitude longitude) else Inr cv)
       | Q1 \<Rightarrow> interpolated_Q1 t centre latitude longitude
       | Q2 \<Rightarrow> interpolated_Q2 t centre latitude longitude
       | Q3 \<Rightarrow> interpolated_Q3 t centre latitude longitude
       | Q4 \<Rightarrow> interpolated_Q4 t centre latitude longitude)"
    by (simp add: interpolated_value_def centre assms(1))
  show ?thesis
  proof (cases q)
    case Q0
    then show ?thesis using assms(2) by simp
  next
    case Q1
    then have "weighted_sums_valid t cells (0, 0) =
        Inr (0 + (\<Sum>(height, distance_n)\<leftarrow>contributing t Q1 cells. height / distance_n),
             0 + sum_inverse_distances (contributing t Q1 cells))"
      using assms(4,5) by (intro weighted_sums_valid_eq) simp_all
    then show ?thesis
      using Q1 assms(3)
      by (simp add: iv interpolated_Q1_cells [OF centre] inverse_distance_mean_def)
  next
    case Q2
    then show ?thesis
      using assms(3,4) weighted_sums_eq [of cells 0 0]
      by (simp add: iv interpolated_Q2_cells [OF centre] contributing_def inverse_distance_mean_def)
  next
    case Q3
    then show ?thesis
      using assms(3,4) weighted_sums_eq [of cells 0 0]
      by (simp add: iv interpolated_Q3_cells [OF centre] contributing_def inverse_distance_mean_def)
  next
    case Q4
    then show ?thesis
      using assms(3,4) weighted_sums_eq [of cells 0 0]
      by (simp add: iv interpolated_Q4_cells [OF centre] contributing_def inverse_distance_mean_def)
  qed
qed

lemma DTOR_small: "57 * DTOR < 1"
  by (simp add: DTOR_def PI_def)

lemma cos_DTOR_nonneg:
  assumes "\<bar>lat\<bar> \<le> 57"
  shows "0 \<le> cos (lat * DTOR)"
proof -
  have "\<bar>lat * DTOR\<bar> \<le> 57 * DTOR"
    using assms DTOR_pos by (simp add: abs_mult)
  then have "\<bar>lat * DTOR\<bar> \<le> pi / 2"
    using DTOR_small pi_ge_two by linarith
  then show ?thesis
    by (intro cos_ge_zero) linarith+
qed

lemma distance_pos:
  assumes "\<bar>lat1\<bar> \<le> 57" and "\<bar>lat2\<bar> \<le> 57" and "lat1 \<noteq> lat2"
  shows "0 < distance lat1 long1 lat2 long2"
proof -
  define x where "x = (lat2 - lat1) / 2 * DTOR"
  define s where "s = sin ((long2 - long1) / 2 * DTOR)"
  define a where "a = sin x * sin x + cos (lat1 * DTOR) * cos (lat2 * DTOR) * s * s"
  have "\<bar>x\<bar> \<le> 57 * DTOR"
    using assms(1,2) DTOR_pos by (simp add: x_def abs_mult)
  then have x1: "\<bar>x\<bar> < pi"
    using DTOR_small pi_ge_two by linarith
  have x0: "x \<noteq> 0"
    using assms(3) DTOR_pos by (simp add: x_def)
  have "sin x \<noteq> 0"
  proof (cases "0 < x")
    case True
    then show ?thesis using sin_gt_zero [of x] x1 by simp
  next
    case False
    then have "0 < sin (- x)" using x0 x1 by (intro sin_gt_zero) linarith+
    then show ?thesis by simp
  qed
  then have sx: "0 < sin x * sin x"
    by (simp add: zero_less_mult_iff) linarith
  have "0 \<le> cos (lat1 * DTOR) * cos (lat2 * DTOR) * (s * s)"
    using cos_DTOR_nonneg [OF assms(1)] cos_DTOR_nonneg [OF assms(2)] by simp
  then have "0 < a"
    using sx by (simp add: a_def mult.assoc)
  then have "0 < atan2 (sqrt a) (sqrt (1 - a))"
    by (intro atan2_pos) simp
  then have "0 < RE * (2 * atan2 (sqrt a) (sqrt (1 - a)))"
    by (simp add: RE_def)
  then show ?thesis
    by (simp add: distance_def Let_def a_def x_def s_def)
qed

lemmas tile_eval =
  index_pair_def map_latitude_to_index_def map_longitude_to_index_def
  double_to_int_def truncate_real_def int_result_def INT_MIN_def INT_MAX_def
  cell_centre_ll_def cell_centre_def cell_value_def cell_value_ip_def
  is_in_tile_def is_between_def vector_at_def

text \<open>
  C2: in a quadrant other than Q0, where the query cell and its three neighbours of the
  quadrant have values and no contributing distance is 0, \<open>interpolated_value\<close> returns
  \<open>sum (height_i / distance_i) / sum (1 / distance_i)\<close> over the contributing cells
  (and raises the NODATA error of the quadrant when the sum of the weights is 0); in Q1
  the contributing cells are those with \<open>valid_height\<close>, that is
  \<open>height > nodata + 1\<close>, in Q2, Q3 and Q4 they are all four cells.  In Q1 the \<open>int\<close>
  \<open>nodata + 1\<close> is to be one that \<open>float\<close> holds exactly, at most \<open>2^24\<close> in
  absolute value: the test compares with its conversion to \<open>float\<close>, and at
  \<open>nodata = INT_MAX\<close> the sum overflows (\<open>weighted_sums_valid_overflow\<close>).
\<close>

theorem interpolated_value_weighted_mean:
  assumes "quadrant t latitude longitude = Inr q" and "q \<noteq> Q0"
    and "quadrant_cells t q latitude longitude = Inr cells"
    and "0 \<notin> snd ` set (contributing t q cells)"
    and "q = Q1 \<Longrightarrow> \<bar>nodata t + 1\<bar> \<le> 2 ^ 24"
  shows "interpolated_value t latitude longitude =
           (if sum_inverse_distances (contributing t q cells) = 0
            then Inl (Grid_float_nodata q latitude longitude)
            else Inr (inverse_distance_mean (contributing t q cells)))"
  using assms by (rule interpolated_value_mean)

lemma example_quadrant_Q1: "quadrant example_tile (7 / 4) (3 / 2) = Inr Q1"
proof -
  have "distance (3 / 2) (3 / 2) (7 / 4) (3 / 2) = RE * (\<bar>7 / 4 - 3 / 2\<bar> * DTOR)"
    by (rule distance_meridian) simp_all
  then have "\<not> distance (3 / 2) (3 / 2) (7 / 4) (3 / 2) < 1"
    by (simp add: RE_def DTOR_def PI_def)
  then show ?thesis
    by (simp add: quadrant_def tile_eval distance_ll_def example_tile_def)
qed

lemma example_cells_Q1:
  "quadrant_cells example_tile Q1 (7 / 4) (3 / 2) =
     Inr [(5, distance (3 / 2) (3 / 2) (7 / 4) (3 / 2)),
          (6, distance (3 / 2) (5 / 2) (7 / 4) (3 / 2)),
          (2, distance (5 / 2) (3 / 2) (7 / 4) (3 / 2)),
          (- 9999, distance (5 / 2) (5 / 2) (7 / 4) (3 / 2))]"
  by (simp add: quadrant_cells_def neighbour_offsets_def neighbour_sample_def tile_eval
      distance_ll_def example_tile_def)

theorem interpolated_value_weighted_mean_witness:
  "quadrant example_tile (7 / 4) (3 / 2) = Inr Q1 \<and> Q1 \<noteq> Q0 \<and>
   \<bar>nodata example_tile + 1\<bar> \<le> 2 ^ 24 \<and>
   quadrant_cells example_tile Q1 (7 / 4) (3 / 2) =
     Inr [(5, distance (3 / 2) (3 / 2) (7 / 4) (3 / 2)),
          (6, distance (3 / 2) (5 / 2) (7 / 4) (3 / 2)),
          (2, distance (5 / 2) (3 / 2) (7 / 4) (3 / 2)),
          (- 9999, distance (5 / 2) (5 / 2) (7 / 4) (3 / 2))] \<and>
   contributing example_tile Q1
     [(5, distance (3 / 2) (3 / 2) (7 / 4) (3 / 2)),
      (6, distance (3 / 2) (5 / 2) (7 / 4) (3 / 2)),
      (2, distance (5 / 2) (3 / 2) (7 / 4) (3 / 2)),
      (- 9999, distance (5 / 2) (5 / 2) (7 / 4) (3 / 2))] =
     [(5, distance (3 / 2) (3 / 2) (7 / 4) (3 / 2)),
      (6, distance (3 / 2) (5 / 2) (7 / 4) (3 / 2)),
      (2, distance (5 / 2) (3 / 2) (7 / 4) (3 / 2))] \<and>
   interpolated_value example_tile (7 / 4) (3 / 2) =
     Inr ((5 / distance (3 / 2) (3 / 2) (7 / 4) (3 / 2) +
           6 / distance (3 / 2) (5 / 2) (7 / 4) (3 / 2) +
           2 / distance (5 / 2) (3 / 2) (7 / 4) (3 / 2)) /
          (1 / distance (3 / 2) (3 / 2) (7 / 4) (3 / 2) +
           1 / distance (3 / 2) (5 / 2) (7 / 4) (3 / 2) +
           1 / distance (5 / 2) (3 / 2) (7 / 4) (3 / 2)))"
proof -
  define d0 where "d0 = distance (3 / 2) (3 / 2) (7 / 4) (3 / 2)"
  define d1 where "d1 = distance (3 / 2) (5 / 2) (7 / 4) (3 / 2)"
  define d2 where "d2 = distance (5 / 2) (3 / 2) (7 / 4) (3 / 2)"
  define d3 where "d3 = distance (5 / 2) (5 / 2) (7 / 4) (3 / 2)"
  have pos: "0 < d0" "0 < d1" "0 < d2"
    unfolding d0_def d1_def d2_def by (rule distance_pos; simp)+
  have c: "contributing example_tile Q1 [(5, d0), (6, d1), (2, d2), (- 9999, d3)]
      = [(5, d0), (6, d1), (2, d2)]"
    by (simp add: contributing_def example_tile_def)
  have h5: "\<bar>nodata example_tile + 1\<bar> \<le> 2 ^ 24"
    by (simp add: example_tile_def)
  have h3: "quadrant_cells example_tile Q1 (7 / 4) (3 / 2)
      = Inr [(5, d0), (6, d1), (2, d2), (- 9999, d3)]"
    unfolding d0_def d1_def d2_def d3_def by (rule example_cells_Q1)
  have h2: "Q1 \<noteq> Q0" by simp
  have h4: "0 \<notin> snd ` set (contributing example_tile Q1 [(5, d0), (6, d1), (2, d2), (- 9999, d3)])"
    using pos by (simp add: c)
  have s: "sum_inverse_distances [(5, d0), (6, d1), (2, d2)] = 1 / d0 + 1 / d1 + 1 / d2"
    by (simp add: sum_inverse_distances_def)
  have "0 < 1 / d0 + 1 / d1 + 1 / d2"
    using pos by (simp add: add_pos_pos)
  then have s0: "sum_inverse_distances [(5, d0), (6, d1), (2, d2)] \<noteq> 0"
    by (simp only: s)
  have "interpolated_value example_tile (7 / 4) (3 / 2) =
      Inr (inverse_distance_mean [(5, d0), (6, d1), (2, d2)])"
    using interpolated_value_weighted_mean [OF example_quadrant_Q1 h2 h3 h4 h5] s0
    by (simp only: c if_False)
  then have "interpolated_value example_tile (7 / 4) (3 / 2) =
      Inr ((5 / d0 + 6 / d1 + 2 / d2) / (1 / d0 + 1 / d1 + 1 / d2))"
    by (simp add: inverse_distance_mean_def s)
  then show ?thesis
    using example_quadrant_Q1 h3 h5 c unfolding d0_def d1_def d2_def d3_def by simp
qed

subsection \<open>NODATA\<close>

lemma cell_value_outside:
  "\<not> is_in_tile t latitude longitude \<Longrightarrow>
   cell_value t latitude longitude = Inr (real_of_int (nodata t))"
  by (simp add: cell_value_def)

lemma nodata_quadrant_Q3: "quadrant nodata_tile (5 / 4) (3 / 2) = Inr Q3"
proof -
  have "distance (3 / 2) (3 / 2) (5 / 4) (3 / 2) = RE * (\<bar>5 / 4 - 3 / 2\<bar> * DTOR)"
    by (rule distance_meridian) simp_all
  then have "\<not> distance (3 / 2) (3 / 2) (5 / 4) (3 / 2) < 1"
    by (simp add: RE_def DTOR_def PI_def)
  then show ?thesis
    by (simp add: quadrant_def tile_eval distance_ll_def nodata_tile_def)
qed

lemma nodata_cells_Q3:
  "quadrant_cells nodata_tile Q3 (5 / 4) (3 / 2) =
     Inr [(- 9999, distance (3 / 2) (3 / 2) (5 / 4) (3 / 2)),
          (- 9999, distance (3 / 2) (1 / 2) (5 / 4) (3 / 2)),
          (- 9999, distance (1 / 2) (3 / 2) (5 / 4) (3 / 2)),
          (- 9999, distance (1 / 2) (1 / 2) (5 / 4) (3 / 2))]"
  by (simp add: quadrant_cells_def neighbour_offsets_def neighbour_sample_def tile_eval
      distance_ll_def nodata_tile_def)

lemma nodata_quadrant_Q1: "quadrant nodata_tile (7 / 4) (3 / 2) = Inr Q1"
proof -
  have "distance (3 / 2) (3 / 2) (7 / 4) (3 / 2) = RE * (\<bar>7 / 4 - 3 / 2\<bar> * DTOR)"
    by (rule distance_meridian) simp_all
  then have "\<not> distance (3 / 2) (3 / 2) (7 / 4) (3 / 2) < 1"
    by (simp add: RE_def DTOR_def PI_def)
  then show ?thesis
    by (simp add: quadrant_def tile_eval distance_ll_def nodata_tile_def)
qed

lemma nodata_cells_Q1:
  "quadrant_cells nodata_tile Q1 (7 / 4) (3 / 2) =
     Inr [(- 9999, distance (3 / 2) (3 / 2) (7 / 4) (3 / 2)),
          (- 9999, distance (3 / 2) (5 / 2) (7 / 4) (3 / 2)),
          (- 9999, distance (5 / 2) (3 / 2) (7 / 4) (3 / 2)),
          (- 9999, distance (5 / 2) (5 / 2) (7 / 4) (3 / 2))]"
  by (simp add: quadrant_cells_def neighbour_offsets_def neighbour_sample_def tile_eval
      distance_ll_def nodata_tile_def)

text \<open>
  C4: (a) \<open>cell_value\<close> at a point outside the tile returns the NODATA value and
  raises nothing: this is \<open>cell_value_outside\<close> above.  (b) \<open>interpolated_value\<close> at a
  point all four of whose cells hold NODATA raises the NODATA error.  The branch of Q1
  does; the branches of Q2, Q3 and Q4 lack its filter: their sum of weights is never 0
  and they return the weighted mean of the NODATA values.  In the tile of NODATA values
  the point of latitude 1.25 and longitude 1.5 is in Q3 and gets the value -9999, where
  the point of latitude 1.75 and longitude 1.5, in Q1, gets the error:
\<close>

theorem interpolated_value_all_nodata:
  "quadrant nodata_tile (5 / 4) (3 / 2) = Inr Q3 \<and>
   quadrant_cells nodata_tile Q3 (5 / 4) (3 / 2) =
     Inr [(- 9999, distance (3 / 2) (3 / 2) (5 / 4) (3 / 2)),
          (- 9999, distance (3 / 2) (1 / 2) (5 / 4) (3 / 2)),
          (- 9999, distance (1 / 2) (3 / 2) (5 / 4) (3 / 2)),
          (- 9999, distance (1 / 2) (1 / 2) (5 / 4) (3 / 2))] \<and>
   interpolated_value nodata_tile (5 / 4) (3 / 2) = Inr (- 9999) \<and>
   quadrant nodata_tile (7 / 4) (3 / 2) = Inr Q1 \<and>
   interpolated_value nodata_tile (7 / 4) (3 / 2) = Inl (Grid_float_nodata Q1 (7 / 4) (3 / 2))"
proof -
  define d0 where "d0 = distance (3 / 2) (3 / 2) (5 / 4) (3 / 2)"
  define d1 where "d1 = distance (3 / 2) (1 / 2) (5 / 4) (3 / 2)"
  define d2 where "d2 = distance (1 / 2) (3 / 2) (5 / 4) (3 / 2)"
  define d3 where "d3 = distance (1 / 2) (1 / 2) (5 / 4) (3 / 2)"
  define cells where "cells = [(- 9999, d0), (- 9999, d1), (- 9999, d2), (- 9999 :: real, d3)]"
  have pos: "0 < d0" "0 < d1" "0 < d2" "0 < d3"
    unfolding d0_def d1_def d2_def d3_def by (rule distance_pos; simp)+
  have qc: "quadrant_cells nodata_tile Q3 (5 / 4) (3 / 2) = Inr cells"
    unfolding cells_def d0_def d1_def d2_def d3_def by (rule nodata_cells_Q3)
  have c: "contributing nodata_tile Q3 cells = cells"
    by (simp add: contributing_def)
  have z: "0 \<notin> snd ` set (contributing nodata_tile Q3 cells)"
    using pos by (simp add: c) (simp add: cells_def)
  have s: "sum_inverse_distances cells = 1 / d0 + 1 / d1 + 1 / d2 + 1 / d3"
    by (simp add: sum_inverse_distances_def cells_def)
  have w: "0 < 1 / d0 + 1 / d1 + 1 / d2 + 1 / d3"
    using pos by (simp add: add_pos_pos)
  then have s0: "sum_inverse_distances cells \<noteq> 0"
    by (simp only: s)
  define W where "W = 1 / d0 + 1 / d1 + 1 / d2 + 1 / d3"
  have n: "(\<Sum>(height, distance_n)\<leftarrow>cells. height / distance_n) = - 9999 * W"
    by (simp add: cells_def W_def algebra_simps)
  have "inverse_distance_mean cells = (- 9999 * W) / W"
    by (simp only: inverse_distance_mean_def n s W_def)
  also have "\<dots> = - 9999"
    using w unfolding W_def [symmetric] by simp
  finally have m: "inverse_distance_mean cells = - 9999" .
  have "interpolated_value nodata_tile (5 / 4) (3 / 2) =
      (if sum_inverse_distances (contributing nodata_tile Q3 cells) = 0
       then Inl (Grid_float_nodata Q3 (5 / 4) (3 / 2))
       else Inr (inverse_distance_mean (contributing nodata_tile Q3 cells)))"
    using nodata_quadrant_Q3 _ qc z by (rule interpolated_value_mean) simp_all
  then have r3: "interpolated_value nodata_tile (5 / 4) (3 / 2) = Inr (- 9999)"
    using s0 by (simp only: c if_False m)
  have c1: "contributing nodata_tile Q1
       [(- 9999, distance (3 / 2) (3 / 2) (7 / 4) (3 / 2)),
        (- 9999, distance (3 / 2) (5 / 2) (7 / 4) (3 / 2)),
        (- 9999, distance (5 / 2) (3 / 2) (7 / 4) (3 / 2)),
        (- 9999, distance (5 / 2) (5 / 2) (7 / 4) (3 / 2))] = []"
    by (simp add: contributing_def nodata_tile_def)
  have n1: "\<bar>nodata nodata_tile + 1\<bar> \<le> 2 ^ 24"
    by (simp add: nodata_tile_def)
  have "interpolated_value nodata_tile (7 / 4) (3 / 2) = Inl (Grid_float_nodata Q1 (7 / 4) (3 / 2))"
    using interpolated_value_mean [OF nodata_quadrant_Q1 _ nodata_cells_Q1 _ n1]
    by (simp add: c1 sum_inverse_distances_def)
  then show ?thesis
    using nodata_quadrant_Q3 qc r3 nodata_quadrant_Q1
    unfolding cells_def d0_def d1_def d2_def d3_def by simp
qed

subsection \<open>Tile names\<close>

lemma digit_cases: "d < 10 \<Longrightarrow> d \<in> {0, 1, 2, 3, 4, 5, 6, 7, 8, 9 :: nat}"
  by auto

lemma of_char_digit_char: "d < 10 \<Longrightarrow> of_char (digit_char d) = 48 + d"
  by (drule digit_cases) (auto simp: digit_char_def)

lemma digit_char_0: "digit_char 0 = CHR ''0''"
  by (simp add: digit_char_def)

lemma digits_of_1: "n < 10 \<Longrightarrow> digits_of n = [digit_char n]"
  by (simp add: digits_of.simps [of n])

lemma digits_of_2:
  assumes "10 \<le> n" and "n < 100"
  shows "digits_of n = [digit_char (n div 10), digit_char (n mod 10)]"
proof -
  have "n div 10 < 10" using assms by simp
  then show ?thesis
    using assms by (simp add: digits_of.simps [of n] digits_of_1)
qed

lemma digits_of_3:
  assumes "100 \<le> n" and "n < 1000"
  shows "digits_of n = [digit_char (n div 100), digit_char (n div 10 mod 10), digit_char (n mod 10)]"
proof -
  have a: "10 \<le> n div 10" "n div 10 < 100" using assms by simp_all
  have b: "n div 10 div 10 = n div 100" by (simp add: div_mult2_eq [symmetric])
  show ?thesis
    using assms by (simp add: digits_of.simps [of n] digits_of_2 [OF a] b)
qed

lemma pad_digits_2:
  assumes "n < 100"
  shows "pad_string (digits_of n) 2 (CHR ''0'') = [digit_char (n div 10), digit_char (n mod 10)]"
proof (cases "n < 10")
  case True
  then show ?thesis
    by (simp add: digits_of_1 pad_string_def digit_char_0)
next
  case False
  then show ?thesis
    using assms by (simp add: digits_of_2 pad_string_def)
qed

lemma pad_digits_3:
  assumes "n < 1000"
  shows "pad_string (digits_of n) 3 (CHR ''0'') =
     [digit_char (n div 100), digit_char (n div 10 mod 10), digit_char (n mod 10)]"
proof -
  consider "n < 10" | "10 \<le> n" "n < 100" | "100 \<le> n" by linarith
  then show ?thesis
  proof cases
    case 1
    then show ?thesis
      by (simp add: digits_of_1 pad_string_def digit_char_0 numeral_2_eq_2)
  next
    case 2
    then have "n div 100 = 0" by simp
    then show ?thesis
      using 2 by (simp add: digits_of_2 pad_string_def digit_char_0)
  next
    case 3
    then show ?thesis
      using assms by (simp add: digits_of_3 pad_string_def)
  qed
qed

lemma is_digit_digit_char: "d < 10 \<Longrightarrow> is_digit (digit_char d)"
  by (simp add: is_digit_def of_char_digit_char)

lemma not_space_digit_char: "d < 10 \<Longrightarrow> \<not> is_space (digit_char d)"
  by (simp add: is_space_def of_char_digit_char)

lemma not_sign_digit_char:
  assumes "d < 10"
  shows "digit_char d \<noteq> CHR ''-''" and "digit_char d \<noteq> CHR ''+''"
proof -
  have "(of_char (digit_char d) :: nat) \<noteq> of_char (CHR ''-'')"
    using assms by (simp add: of_char_digit_char)
  then show "digit_char d \<noteq> CHR ''-''" by auto
  have "(of_char (digit_char d) :: nat) \<noteq> of_char (CHR ''+'')"
    using assms by (simp add: of_char_digit_char)
  then show "digit_char d \<noteq> CHR ''+''" by auto
qed

lemma from_string_int_2:
  assumes "a < 10" and "b < 10"
  shows "from_string_int [digit_char a, digit_char b] = Inr (int (a * 10 + b))"
  using assms
  by (simp add: from_string_int_def not_space_digit_char not_sign_digit_char is_digit_digit_char
      digits_value_def of_char_digit_char INT_MAX_def INT_MIN_def)

lemma from_string_int_3:
  assumes "a < 10" and "b < 10" and "c < 10"
  shows "from_string_int [digit_char a, digit_char b, digit_char c]
           = Inr (int (a * 100 + b * 10 + c))"
  using assms
  by (simp add: from_string_int_def not_space_digit_char not_sign_digit_char is_digit_digit_char
      digits_value_def of_char_digit_char INT_MAX_def INT_MIN_def)

lemma base_filename_digits:
  assumes "0 \<le> c" and "c div 1000 < 100"
  shows "base_filename c =
     [CHR ''n'', digit_char (nat (c div 1000) div 10), digit_char (nat (c div 1000) mod 10),
      CHR ''w'', digit_char (nat (c mod 1000) div 100),
      digit_char (nat (c mod 1000) div 10 mod 10), digit_char (nat (c mod 1000) mod 10)]"
proof -
  have d: "c sdiv 1000 = c div 1000" and m: "c smod 1000 = c mod 1000"
    using assms(1) by (simp_all add: signed_divide_int_def signed_modulo_int_def sgn_if)
  have a: "nat (c div 1000) < 100" using assms by simp
  have b: "nat (c mod 1000) < 1000" by simp
  have "0 \<le> c div 1000" using assms(1) by simp
  moreover have "\<not> c mod 1000 < 0" by simp
  ultimately show ?thesis
    by (simp add: base_filename_def d m to_string_int_def pad_digits_2 [OF a] pad_digits_3 [OF b]
        del: nat_mod_distrib nat_div_distrib)
qed

text \<open>
  C6: for every valid tile code \<open>c\<close>, a positive \<open>int\<close> whose latitude part
  \<open>c / 1000\<close> has at most two digits (the longitude part \<open>c % 1000\<close> has at most
  three), parsing the base filename gives the code back:
  \<open>llc (base_filename (c)) == c\<close>.
\<close>

theorem llc_base_filename:
  assumes "0 < c" and "c sdiv 1000 < 100"
  shows "llc_string (base_filename c) = Inr c"
proof -
  define A where "A = nat (c div 1000)"
  define B where "B = nat (c mod 1000)"
  have d: "c sdiv 1000 = c div 1000"
    using assms(1) by (simp add: signed_divide_int_def sgn_if)
  have a: "A < 100" using assms d by (simp add: A_def)
  have b: "B < 1000" by (simp add: B_def)
  have c: "c = int A * 1000 + int B"
    using assms(1) by (simp add: A_def B_def)
  have bf: "base_filename c =
     [CHR ''n'', digit_char (A div 10), digit_char (A mod 10),
      CHR ''w'', digit_char (B div 100), digit_char (B div 10 mod 10), digit_char (B mod 10)]"
    unfolding A_def B_def using assms d by (intro base_filename_digits) simp_all
  have fa: "from_string_int [digit_char (A div 10), digit_char (A mod 10)] = Inr (int A)"
    using a by (subst from_string_int_2) simp_all
  have "B div 100 * 100 + B div 10 mod 10 * 10 + B mod 10 = B"
  proof -
    define q where "q = B div 10"
    define q1 where "q1 = q div 10"
    define r1 where "r1 = q mod 10"
    define r0 where "r0 = B mod 10"
    have e1: "q1 * 10 + r1 = q" by (simp add: q1_def r1_def)
    have e0: "q * 10 + r0 = B" by (simp add: q_def r0_def)
    have "B div 100 = q1" by (simp add: q1_def q_def div_mult2_eq [symmetric])
    moreover have "q1 * 100 + r1 * 10 + r0 = B" using e1 e0 by linarith
    ultimately show ?thesis by (simp only: q_def [symmetric] r1_def [symmetric] r0_def [symmetric])
  qed
  then have fb: "from_string_int [digit_char (B div 100), digit_char (B div 10 mod 10), digit_char (B mod 10)]
      = Inr (int B)"
    using b by (subst from_string_int_3) simp_all
  have r1: "int_result (int A * 1000) = Inr (int A * 1000)"
    using a by (simp add: int_result_def INT_MIN_def INT_MAX_def)
  have r2: "int_result (int A * 1000 + int B) = Inr (int A * 1000 + int B)"
    using a b by (simp add: int_result_def INT_MIN_def INT_MAX_def)
  have "llc_string (base_filename c) = Inr (int A * 1000 + int B)"
    by (simp add: llc_string_def bf substr_def fa fb r1 r2)
  then show ?thesis
    by (simp only: c [symmetric])
qed

theorem llc_base_filename_witness:
  "(0::int) < 41106 \<and> (41106::int) sdiv 1000 < 100 \<and> base_filename 41106 = ''n41w106'' \<and>
   llc_string ''n41w106'' = Inr 41106"
proof -
  have h1: "(0::int) < 41106" by simp
  have h2: "(41106::int) sdiv 1000 < 100" by (simp add: signed_divide_int_def)
  have bf: "base_filename 41106 = ''n41w106''"
    by (simp add: base_filename_digits digit_char_def)
  show ?thesis
    using h1 h2 llc_base_filename [OF h1 h2] by (simp add: bf)
qed

subsection \<open>The tile fetcher\<close>

text \<open>
  C9: for every tile code and local directory, when the local header file and the local
  data file both exist and are not empty, \<open>download_if_necessary\<close> returns at once:
  no command is run (no download, no extraction), no directory is created, nothing is
  written, and the world, the file system included, is the one it was called in.
\<close>

theorem download_if_necessary_present:
  assumes "local_dirname_of local_directory = Inr local_dirname"
    and "file_exists (local_dirname @ ''usgs_ned_13_'' @ base_filename llc_code @ ''_gridfloat.hdr'') w"
    and "\<not> file_empty (local_dirname @ ''usgs_ned_13_'' @ base_filename llc_code @ ''_gridfloat.hdr'') w"
    and "file_exists (local_dirname @ ''usgs_ned_13_'' @ base_filename llc_code @ ''_gridfloat.flt'') w"
    and "\<not> file_empty (local_dirname @ ''usgs_ned_13_'' @ base_filename llc_code @ ''_gridfloat.flt'') w"
  shows "download_if_necessary env llc_code local_directory w = (Inr (), w)"
  using assms by (simp add: download_if_necessary_def)

theorem download_if_necessary_present_witness:
  "local_dirname_of ''tiles'' = Inr ''tiles/'' \<and>
   file_exists ''tiles/usgs_ned_13_n41w106_gridfloat.hdr'' cached_world \<and>
   \<not> file_empty ''tiles/usgs_ned_13_n41w106_gridfloat.hdr'' cached_world \<and>
   file_exists ''tiles/usgs_ned_13_n41w106_gridfloat.flt'' cached_world \<and>
   \<not> file_empty ''tiles/usgs_ned_13_n41w106_gridfloat.flt'' cached_world \<and>
   download_if_necessary idle_environment 41106 ''tiles'' cached_world = (Inr (), cached_world)"
proof -
  have bf: "base_filename 41106 = ''n41w106''"
    by (simp add: base_filename_digits digit_char_def)
  have h1: "local_dirname_of ''tiles'' = Inr ''tiles/''"
    by (simp add: local_dirname_of_def last_char_def)
  have h2: "file_exists (''tiles/'' @ ''usgs_ned_13_'' @ base_filename 41106 @ ''_gridfloat.hdr'') cached_world"
    and h3: "\<not> file_empty (''tiles/'' @ ''usgs_ned_13_'' @ base_filename 41106 @ ''_gridfloat.hdr'') cached_world"
    and h4: "file_exists (''tiles/'' @ ''usgs_ned_13_'' @ base_filename 41106 @ ''_gridfloat.flt'') cached_world"
    and h5: "\<not> file_empty (''tiles/'' @ ''usgs_ned_13_'' @ base_filename 41106 @ ''_gridfloat.flt'') cached_world"
    by (simp_all add: bf file_exists_def file_empty_def file_size_def cached_world_def)
  show ?thesis
    using h1 h2 h3 h4 h5 download_if_necessary_present [OF h1 h2 h3 h4 h5, of idle_environment]
    by (simp add: bf)
qed

end
